theory Spec2Isabelle
  imports Main "HOL-Library.Word" "HOL-Library.Sublist"
begin

unbundle bit_operations_syntax

section \<open>The SlimProto client controller (slimproto.c)\<close>

text \<open>
  A shallow embedding of \<^verbatim>\<open>src/application/squeezetiny/slimproto.c\<close>.  The player context
  \<^verbatim>\<open>struct thread_ctx_s\<close> is a record that every function takes and returns; what a
  function does beyond changing the context (a packet handed to a send helper, a call of a
  collaborator or of the bridge callback, a mutex taken or released) is recorded, in program
  order, in a list of effects.  Bytes are \<^typ>\<open>char\<close> (eight bits); a field that the source keeps
  "in network byte order" is the list of its bytes as they stand on the wire.
\<close>

subsection \<open>Scalars and enumerations\<close>

type_synonym u8 = "8 word"
type_synonym u16 = "16 word"
type_synonym u32 = "32 word"
type_synonym u64 = "64 word"
type_synonym bytes = "char list"

text \<open>The enumerations are declared in squeezelite.h, which is not under src/: the
  enumerators are the ones slimproto.c names.  The numeric order of \<open>stream_state\<close>, which the
  comparison \<^verbatim>\<open>stream_state <= DISCONNECT\<close> reads, is a parameter (\<open>stream_rank\<close> below).\<close>

datatype stream_state_t =
  STOPPED | DISCONNECT | STREAMING_WAIT | STREAMING_BUFFERING | STREAMING_FILE
  | STREAMING_HTTP | SEND_HEADERS | RECV_HEADERS

datatype disconnect_code = DISCONNECT_OK | DISCONNECT_REASON nat

datatype decode_state_t =
  DECODE_STOPPED | DECODE_READY | DECODE_RUNNING | DECODE_COMPLETE | DECODE_ERROR

datatype output_state_t = OUTPUT_STOPPED | OUTPUT_WAITING | OUTPUT_RUNNING

datatype render_state_t = RD_STOPPED | RD_ACTIVE nat

datatype encode_mode_t = ENCODE_THRU | ENCODE_PCM | ENCODE_FLAC | ENCODE_MP3

datatype l24_format_t = L24_TRUNC16 | L24_TRUNC16_PCM | L24_PACKED

datatype sq_action_t =
  SQ_STOP | SQ_PAUSE | SQ_UNPAUSE | SQ_ONOFF | SQ_VOLUME | SQ_SETNAME | SQ_SETSERVER
  | SQ_PLAY | SQ_SET_TRACK

datatype event_type = EVENT_TIMEOUT | EVENT_READ | EVENT_WAKE

datatype mutex_id = MUTEX_S | MUTEX_O | MUTEX_D

text \<open>Undefined behaviour of the C source that the model makes a result of its own.\<close>

datatype fault = Read_out_of_range | Null_dereference

subsection \<open>Structures\<close>

record metadata_s =
  md_duration :: int
  md_bitrate :: int
  md_remote :: bool
  md_sample_size :: int
  md_sample_rate :: int

record track_param =
  tp_offset :: int
  tp_metadata :: metadata_s
  tp_mimetype :: string
  tp_uri_index :: int
  tp_uri_ext :: string

text \<open>The value behind the \<^verbatim>\<open>void *param\<close> of the bridge callback.\<close>

datatype cb_param =
  No_param | Param_onoff bool | Param_volume u16 | Param_name string | Param_server bytes
  | Param_track track_param

record streamstate =
  stream_state :: stream_state_t
  stream_bytes :: u64
  stream_disconnect_code :: disconnect_code
  stream_sent_headers :: bool
  stream_header :: bytes
  stream_header_len :: nat
  stream_meta_send :: bool
  stream_meta_interval :: u32
  stream_meta_next :: u32

record decodestate =
  decode_state :: decode_state_t

text \<open>\<^verbatim>\<open>struct outputstate\<close>, with its members \<^verbatim>\<open>encode\<close> and \<^verbatim>\<open>icy\<close> in a record each.  The
  widths of the numeric members are declared in squeezelite.h (not under src/); they are
  mathematical integers here.\<close>

record encode_s =
  encode_mode :: encode_mode_t
  encode_flow :: bool
  encode_sample_rate :: int
  encode_sample_size :: int
  encode_channels :: int
  encode_level :: int

record icy_s =
  icy_interval :: nat
  icy_last :: u32

record outputstate =
  output_state :: output_state_t
  output_start_at :: u32
  output_track_started :: bool
  output_completed :: bool
  output_next_replay_gain :: u32
  output_fade_mode :: u8
  output_fade_secs :: u8
  output_icy :: icy_s
  output_encode :: encode_s
  output_index :: int
  output_duration :: int
  output_bitrate :: int
  output_remote :: bool
  output_sample_size :: int
  output_sample_rate :: int
  output_channels :: int
  output_in_endian :: int
  output_codec :: char
  output_supported_rate0 :: int
  output_offset :: int
  output_mimetype :: string
  output_format :: char
  output_out_endian :: bool
  output_length :: int
  output_port :: nat

record renderstate =
  render_state :: render_state_t
  render_duration :: u32
  render_ms_played :: u32
  render_index :: int

record buffer =
  buf_size :: nat
  buf_data :: bytes

record status_s =
  status_stream_full :: u32
  status_stream_size :: u32
  status_stream_bytes :: u64
  status_stream_state :: stream_state_t
  status_output_full :: u32
  status_output_size :: u32
  status_sample_rate :: int
  status_output_ready :: bool
  status_duration :: u32
  status_ms_played :: u32
  status_last :: u32

record config_s =
  config_name :: string
  config_server :: string
  config_mode :: string
  config_sample_rate :: int
  config_send_icy :: bool
  config_L24_format :: l24_format_t
  config_raw_audio_format :: string
  config_outputbuf_size :: nat
  config_stream_length :: int

record slim_run_s =
  slim_run_buffer :: "nat \<Rightarrow> char"
  slim_run_last :: u32
  slim_run_header :: bytes

text \<open>The part of the context that the stream, decode and output threads and the
  collaborators' functions read and write.\<close>

record shared =
  sh_stream :: streamstate
  sh_decode :: decodestate
  sh_output :: outputstate
  sh_render :: renderstate
  sh_streambuf :: buffer
  sh_outputbuf :: buffer

record ctx =
  stream :: streamstate
  decode :: decodestate
  output' :: outputstate
  render :: renderstate
  streambuf :: buffer
  outputbuf :: buffer
  status :: status_s
  config :: config_s
  slim_run :: slim_run_s
  last_command :: char
  autostart :: u8
  canSTMdu :: bool
  sentSTMu :: bool
  sentSTMo :: bool
  sentSTMl :: bool
  sentSTMd :: bool
  slimproto_ip :: bytes
  new_server :: bytes
  new_server_cap :: "string option"
  var_cap :: string
  fixed_cap :: string
  mac :: bytes
  running :: bool
  cli_sock :: int
  cli_timestamp :: u32
  ctx_on :: bool
  callback :: "(sq_action_t \<Rightarrow> cb_param \<Rightarrow> bool) option"
  mimetypes :: "string list"

subsection \<open>Effects\<close>

text \<open>One entry for each call that leaves the controller, with the arguments of the call:
  the send helpers of this file (\<^verbatim>\<open>sendHELO\<close>, \<^verbatim>\<open>sendSTAT\<close>, \<^verbatim>\<open>sendDSCO\<close>, \<^verbatim>\<open>sendRESP\<close>,
  \<^verbatim>\<open>sendMETA\<close>, \<^verbatim>\<open>sendSETDName\<close>), the registered bridge callback, the collaborators, the
  mutex macros, and two lines of the log that a theorem below refers to.\<close>

datatype effect =
  LOCK mutex_id
  | UNLOCK mutex_id
  | SendHELO bool string string bytes
  | SendSTAT string bytes
  | SendDSCO disconnect_code
  | SendRESP bytes
  | SendMETA bytes
  | SendSETDName string
  | Callback sq_action_t cb_param
  | Process bytes
  | Decode_flush
  | Output_flush
  | Stream_disconnect
  | Buf_flush
  | Stream_sock bytes bytes bytes u32 nat bool
  | Codec_open char int int int int
  | Output_start
  | Buf_resize nat
  | Buf_reset
  | Sq_get_metadata int
  | Output_set_icy bool
  | Wake_controller
  | Close_cli_socket
  | Log_nothing_received
  | Log_unhandled

subsection \<open>What the file takes from elsewhere\<close>

text \<open>The macros of squeezelite.h that slimproto.c uses, the host's byte order, and the
  collaborators (stream reader, decoder, output, buffers, metadata, mime types).  None of
  them is under src/, so each is a parameter: a collaborator is a function on the shared
  part of the context, with the value it returns.\<close>

record platform =
  MAX_HEADER :: u32
  STREAM_DELAY :: u32
  ICY_UPDATE_TIME :: u32
  STR_LEN :: nat
  SL_LITTLE_ENDIAN :: bool
  stream_rank :: "stream_state_t \<Rightarrow> nat"
  x_decode_flush :: "shared \<Rightarrow> shared"
  x_output_flush :: "shared \<Rightarrow> shared"
  x_stream_disconnect :: "shared \<Rightarrow> bool \<times> shared"
  x_buf_flush :: "shared \<Rightarrow> shared"
  x_stream_sock :: "bytes \<Rightarrow> bytes \<Rightarrow> bytes \<Rightarrow> u32 \<Rightarrow> nat \<Rightarrow> bool \<Rightarrow> shared \<Rightarrow> shared"
  x_codec_open :: "char \<Rightarrow> int \<Rightarrow> int \<Rightarrow> int \<Rightarrow> int \<Rightarrow> shared \<Rightarrow> bool \<times> shared"
  x_output_start :: "shared \<Rightarrow> bool \<times> shared"
  x_output_set_icy :: "metadata_s \<Rightarrow> bool \<Rightarrow> shared \<Rightarrow> shared"
  x_buf_resize :: "nat \<Rightarrow> shared \<Rightarrow> shared"
  x_buf_reset :: "shared \<Rightarrow> bool \<times> shared"
  x_buf_used :: "buffer \<Rightarrow> u32"
  x_sq_get_metadata :: "int \<Rightarrow> metadata_s"
  x_sq_default_metadata :: metadata_s
  x_find_mimetype :: "char \<Rightarrow> string list \<Rightarrow> string option \<Rightarrow> string option"
  x_find_pcm_mimetype ::
    "int \<Rightarrow> bool \<Rightarrow> int \<Rightarrow> int \<Rightarrow> string list \<Rightarrow> string \<Rightarrow> string option \<times> int"
  x_mimetype2format :: "string \<Rightarrow> char"
  x_mimetype2ext :: "string \<Rightarrow> string"

definition MAXBUF :: int where
  "MAXBUF = 4096"

definition get_shared :: "ctx \<Rightarrow> shared" where
  "get_shared c =
     \<lparr>sh_stream = stream c, sh_decode = decode c, sh_output = output' c,
      sh_render = render c, sh_streambuf = streambuf c, sh_outputbuf = outputbuf c\<rparr>"

definition put_shared :: "shared \<Rightarrow> ctx \<Rightarrow> ctx" where
  "put_shared s c =
     c\<lparr>stream := sh_stream s, decode := sh_decode s, output' := sh_output s,
       render := sh_render s, streambuf := sh_streambuf s, outputbuf := sh_outputbuf s\<rparr>"

text \<open>A call of a collaborator: it works on the shared part and leaves the rest alone.\<close>

definition ext :: "(shared \<Rightarrow> shared) \<Rightarrow> ctx \<Rightarrow> ctx" where
  "ext f c = put_shared (f (get_shared c)) c"

definition ext_r :: "(shared \<Rightarrow> bool \<times> shared) \<Rightarrow> ctx \<Rightarrow> bool \<times> ctx" where
  "ext_r f c = (fst (f (get_shared c)), put_shared (snd (f (get_shared c))) c)"

subsection \<open>Wire helpers\<close>

text \<open>Modelled from the spec: \<^verbatim>\<open>unpackN\<close> is defined in utils.c, which is not under src/.  The
  spec's wire codec has every multi-byte numeric field in network byte order, so \<open>unpackN\<close>
  reads four bytes big-endian.\<close>

definition unpackN :: "bytes \<Rightarrow> u32" where
  "unpackN bs = word_of_nat (foldl (\<lambda>n b. 256 * n + of_char b) 0 (take 4 bs))"

text \<open>The bytes a 32-bit value has in the host's memory.\<close>

definition host_bytes32 :: "platform \<Rightarrow> u32 \<Rightarrow> bytes" where
  "host_bytes32 K v =
     (let be = map (\<lambda>i. char_of (unat (drop_bit (8 * i) v) mod 256)) [3, 2, 1, 0]
      in if SL_LITTLE_ENDIAN K then rev be else be)"

text \<open>A 32-bit field kept as its four bytes compares equal to 0 when every byte is 0.\<close>

definition raw_zero :: "bytes \<Rightarrow> bool" where
  "raw_zero bs = list_all (\<lambda>b. b = CHR 0x00) bs"

definition zero32 :: bytes where
  "zero32 = [CHR 0x00, CHR 0x00, CHR 0x00, CHR 0x00]"

text \<open>Bytes \<open>off\<close> .. \<open>off + n - 1\<close> of the receive buffer.\<close>

definition bytes_at :: "(nat \<Rightarrow> char) \<Rightarrow> nat \<Rightarrow> nat \<Rightarrow> bytes" where
  "bytes_at pkt off n = map pkt [off ..< off + n]"

text \<open>The C string that starts at \<open>off\<close>: the bytes before the first NUL.  The receive buffer
  has \<open>MAXBUF\<close> bytes; a string that runs past them is not modelled.\<close>

definition cstring_at :: "(nat \<Rightarrow> char) \<Rightarrow> nat \<Rightarrow> string" where
  "cstring_at pkt off = takeWhile (\<lambda>b. b \<noteq> CHR 0x00) (bytes_at pkt off (nat MAXBUF - off))"

text \<open>\<^verbatim>\<open>struct strm_packet\<close> is declared (packed) in slimproto.h, not under src/: the members are
  those \<open>process_strm\<close> reads, at the offsets of the SlimProto \<open>strm\<close> frame.\<close>

record strm_packet =
  strm_command :: char
  strm_autostart :: char
  strm_format :: char
  strm_pcm_sample_size :: char
  strm_pcm_sample_rate :: char
  strm_pcm_channels :: char
  strm_pcm_endianness :: char
  strm_threshold :: char
  strm_transition_period :: char
  strm_transition_type :: char
  strm_replay_gain :: bytes
  strm_server_port :: bytes
  strm_server_ip :: bytes

definition strm_packet_of :: "(nat \<Rightarrow> char) \<Rightarrow> strm_packet" where
  "strm_packet_of pkt =
     \<lparr>strm_command = pkt 4, strm_autostart = pkt 5, strm_format = pkt 6,
      strm_pcm_sample_size = pkt 7, strm_pcm_sample_rate = pkt 8, strm_pcm_channels = pkt 9,
      strm_pcm_endianness = pkt 10, strm_threshold = pkt 11, strm_transition_period = pkt 13,
      strm_transition_type = pkt 14, strm_replay_gain = bytes_at pkt 18 4,
      strm_server_port = bytes_at pkt 22 2, strm_server_ip = bytes_at pkt 24 4\<rparr>"

definition sizeof_strm_packet :: nat where
  "sizeof_strm_packet = 28"

definition sizeof_serv_packet :: nat where
  "sizeof_serv_packet = 8"

subsection \<open>ctx_callback\<close>

text \<open>\<^verbatim>\<open>if (ctx->callback) rc = ctx->callback(ctx->self, ctx->MR, action, cookie, param);\<close>\<close>

definition ctx_callback :: "ctx \<Rightarrow> sq_action_t \<Rightarrow> cb_param \<Rightarrow> bool \<times> effect list" where
  "ctx_callback c action param =
     (case callback c of
        None \<Rightarrow> (False, [])
      | Some cb \<Rightarrow> (cb action param, [Callback action param]))"

subsection \<open>C library functions on strings\<close>

text \<open>\<^verbatim>\<open>stristr\<close> (a helper of the repository that is not under src/), \<^verbatim>\<open>strstr\<close> and \<^verbatim>\<open>atoi\<close>: the
  result of a search is the rest of the string from the first match on, \<open>None\<close> for NULL.\<close>

definition tolower_c :: "char \<Rightarrow> char" where
  "tolower_c c = (let n = (of_char c :: nat) in if 65 \<le> n \<and> n \<le> 90 then char_of (n + 32) else c)"

fun strstr :: "string \<Rightarrow> string \<Rightarrow> string option" where
  "strstr [] n = (if n = [] then Some [] else None)"
| "strstr (h # hs) n = (if prefix n (h # hs) then Some (h # hs) else strstr hs n)"

definition stristr :: "string \<Rightarrow> string \<Rightarrow> string option" where
  "stristr h n =
     (case strstr (map tolower_c h) (map tolower_c n) of
        None \<Rightarrow> None
      | Some r \<Rightarrow> Some (drop (length h - length r) h))"

definition isspace_c :: "char \<Rightarrow> bool" where
  "isspace_c c = ((of_char c :: nat) = 32 \<or> (9 \<le> (of_char c :: nat) \<and> (of_char c :: nat) \<le> 13))"

definition isdigit_c :: "char \<Rightarrow> bool" where
  "isdigit_c c = (48 \<le> (of_char c :: nat) \<and> (of_char c :: nat) \<le> 57)"

definition atoi :: "string \<Rightarrow> int" where
  "atoi s =
     (let s1 = dropWhile isspace_c s;
          neg = (s1 \<noteq> [] \<and> hd s1 = CHR ''-'');
          s2 = (if s1 \<noteq> [] \<and> (hd s1 = CHR ''-'' \<or> hd s1 = CHR ''+'') then tl s1 else s1);
          n = foldl (\<lambda>a d. 10 * a + (of_char d - 48)) 0 (takeWhile isdigit_c s2)
      in if neg then - n else n)"

subsection \<open>The format negotiator: process_start\<close>

definition pcm_sample_size :: "int list" where
  "pcm_sample_size = [8, 16, 24, 32]"

definition pcm_sample_rate :: "int list" where
  "pcm_sample_rate =
     [11025, 22050, 32000, 44100, 48000, 8000, 12000, 16000, 24000, 96000, 88200,
      176400, 192000, 352800, 384000]"

definition pcm_channels :: "int list" where
  "pcm_channels = [1, 2]"

text \<open>\<^verbatim>\<open>table[i]\<close>: an index outside the table is undefined behaviour in C.\<close>

definition table_read :: "int list \<Rightarrow> int \<Rightarrow> fault + int" where
  "table_read tbl i =
     (if 0 \<le> i \<and> i < int (length tbl) then Inr (tbl ! nat i) else Inl Read_out_of_range)"

definition upd_output :: "(outputstate \<Rightarrow> outputstate) \<Rightarrow> ctx \<Rightarrow> ctx" where
  "upd_output f c = c\<lparr>output' := f (output' c)\<rparr>"

definition upd_encode :: "(encode_s \<Rightarrow> encode_s) \<Rightarrow> ctx \<Rightarrow> ctx" where
  "upd_encode f c = upd_output (\<lambda>u. u\<lparr>output_encode := f (output_encode u)\<rparr>) c"

abbreviation out_of :: "ctx \<Rightarrow> outputstate" where
  "out_of c \<equiv> output' c"

abbreviation enc_of :: "ctx \<Rightarrow> encode_s" where
  "enc_of c \<equiv> output_encode (output' c)"

text \<open>Lines 976-981: the track index, the metadata offset, the output buffer.\<close>

definition ps_begin :: "platform \<Rightarrow> ctx \<Rightarrow> ctx \<times> int \<times> effect list" where
  "ps_begin K c =
     (let c1 = upd_output (\<lambda>u. u\<lparr>output_index := output_index u + 1\<rparr>) c;
          offset = (if render_index (render c1) \<noteq> - 1
                    then output_index (out_of c1) - render_index (render c1) else 0);
          c2 = ext (x_buf_resize K (config_outputbuf_size (config c1))) c1
      in (c2, offset, [LOCK MUTEX_O, Buf_resize (config_outputbuf_size (config c1)), UNLOCK MUTEX_O]))"

text \<open>Lines 999-1010: the source parameters, read through the three tables.\<close>

definition ps_source :: "char \<Rightarrow> char \<Rightarrow> char \<Rightarrow> char \<Rightarrow> char \<Rightarrow> ctx \<Rightarrow> fault + ctx" where
  "ps_source format rate sz channels endianness c =
     (case (if format \<noteq> CHR ''a''
            then (if sz \<noteq> CHR ''?'' then table_read pcm_sample_size (of_char sz - 48) else Inr 0)
            else Inr (of_char sz)) of
        Inl f \<Rightarrow> Inl f
      | Inr ssize \<Rightarrow>
     (case (if rate \<noteq> CHR ''?'' then table_read pcm_sample_rate (of_char rate - 48) else Inr 0) of
        Inl f \<Rightarrow> Inl f
      | Inr srate \<Rightarrow>
     (case (if channels \<noteq> CHR ''?'' then table_read pcm_channels (of_char channels - 49) else Inr 0) of
        Inl f \<Rightarrow> Inl f
      | Inr ch \<Rightarrow>
          Inr (upd_output (\<lambda>u. u\<lparr>
                 output_sample_size := ssize,
                 output_sample_rate :=
                   (if srate > config_sample_rate (config c) then config_sample_rate (config c) else srate),
                 output_channels := ch,
                 output_in_endian :=
                   (if endianness \<noteq> CHR ''?'' then (of_char endianness - 48) mod 256 else 255),
                 output_codec := format\<rparr>) c))))"

text \<open>\<^verbatim>\<open>codec_open(out->codec, out->sample_size, out->sample_rate, out->channels, out->in_endian, ctx)\<close>\<close>

definition codec_open :: "platform \<Rightarrow> ctx \<Rightarrow> bool \<times> ctx \<times> effect list" where
  "codec_open K c =
     (let u = out_of c;
          (ok, c1) = ext_r (x_codec_open K (output_codec u) (output_sample_size u)
                              (output_sample_rate u) (output_channels u) (output_in_endian u)) c
      in (ok, c1, [Codec_open (output_codec u) (output_sample_size u) (output_sample_rate u)
                     (output_channels u) (output_in_endian u)]))"

text \<open>\<^verbatim>\<open>output_set_icy(&metadata, force, now, ctx)\<close>; the time it is given is left to the
  collaborator.\<close>

definition output_set_icy :: "platform \<Rightarrow> metadata_s \<Rightarrow> bool \<Rightarrow> ctx \<Rightarrow> ctx \<times> effect list" where
  "output_set_icy K md force c = (ext (x_output_set_icy K md force) c, [Output_set_icy force])"

text \<open>Lines 1020-1027: the processing mode; a mode string naming none of pcm, flc, mp3 is
  overwritten with "thru".\<close>

definition ps_mode :: "string \<Rightarrow> string \<times> encode_mode_t" where
  "ps_mode mode =
     (if stristr mode ''pcm'' \<noteq> None then (mode, ENCODE_PCM)
      else if stristr mode ''flc'' \<noteq> None then (mode, ENCODE_FLAC)
      else if stristr mode ''mp3'' \<noteq> None then (mode, ENCODE_MP3)
      else (''thru'', ENCODE_THRU))"

text \<open>\<^verbatim>\<open>(p = stristr(mode, key)) != NULL ? atoi(p + strlen(key)) : dflt\<close>\<close>

definition mode_param :: "string \<Rightarrow> string \<Rightarrow> int \<Rightarrow> int" where
  "mode_param mode key dflt =
     (case stristr mode key of None \<Rightarrow> dflt | Some p \<Rightarrow> atoi (drop (length key) p))"

text \<open>Lines 1020-1064: mode, re-encoding parameters, ICY metadata, flow mode, the rate
  to encode at.  The result carries \<open>info.metadata\<close>, which flow mode replaces.\<close>

definition ps_setup :: "platform \<Rightarrow> metadata_s \<Rightarrow> ctx \<Rightarrow> ctx \<times> metadata_s \<times> effect list" where
  "ps_setup K md c =
     (let (mode, em) = ps_mode (config_mode (config c));
          c1 = c\<lparr>config := (config c)\<lparr>config_mode := mode\<rparr>\<rparr>;
          sample_rate = mode_param mode ''r:'' 0;
          c2 = upd_encode (\<lambda>e. e\<lparr>encode_mode := em, encode_sample_size := mode_param mode ''s:'' 0,
                                  encode_channels := 0\<rparr>) c1;
          c3 = upd_output (\<lambda>u. u\<lparr>output_offset := 0\<rparr>) c2;
          (c4, es4) = (if config_send_icy (config c3) \<and>
                          (output_duration (out_of c3) = 0 \<or> encode_flow (enc_of c3))
                       then output_set_icy K md True c3 else (c3, []));
          flow = (stristr mode ''flow'' \<noteq> None \<and> encode_mode (enc_of c4) \<noteq> ENCODE_THRU);
          (c5, es5) = (if flow
                       then (if config_send_icy (config c4) then output_set_icy K md True c4 else (c4, []))
                       else (if config_send_icy (config c4) \<and> output_duration (out_of c4) = 0
                             then output_set_icy K md True c4 else (c4, [])));
          md' = (if flow then x_sq_default_metadata K else md);
          sample_rate' = (if flow \<and> (sample_rate = 0 \<or> sample_rate < 0) then 44100 else sample_rate);
          c6 = (if flow
                then upd_encode (\<lambda>e. e\<lparr>encode_sample_size :=
                                          (if encode_sample_size e = 0 then 16 else encode_sample_size e),
                                        encode_channels := 2, encode_flow := True\<rparr>) c5
                else c5);
          rate0 = (if sample_rate' > 0 then sample_rate'
                   else if sample_rate' < 0
                   then (if output_sample_rate (out_of c6) \<noteq> 0
                         then min (output_sample_rate (out_of c6)) \<bar>sample_rate'\<bar> else sample_rate')
                   else output_sample_rate (out_of c6));
          c7 = upd_output (\<lambda>u. u\<lparr>output_supported_rate0 := rate0\<rparr>) c6;
          c8 = upd_encode (\<lambda>e. e\<lparr>encode_sample_rate := (if rate0 > 0 then rate0 else 0)\<rparr>) c7
      in (c8, md', es4 @ es5))"

text \<open>Lines 1067-1086: no re-encoding (thru, or pcm from pcm).\<close>

definition ps_mime_thru :: "platform \<Rightarrow> ctx \<Rightarrow> string option \<times> ctx \<times> effect list" where
  "ps_mime_thru K c =
     (let (c1, es1) = (if encode_mode (enc_of c) = ENCODE_THRU
                       then (snd (ext_r (x_buf_reset K) c), [Buf_reset]) else (c, []))
      in if output_codec (out_of c1) = CHR ''p''
         then (let c2 = (if encode_sample_size (enc_of c1) = 0
                         then upd_encode (\<lambda>e. e\<lparr>encode_sample_size :=
                                (if output_sample_size (out_of c1) = 24 \<and>
                                    config_L24_format (config c1) = L24_TRUNC16
                                 then 16 else output_sample_size (out_of c1))\<rparr>) c1
                         else c1);
                   (mt, ss) = x_find_pcm_mimetype K (encode_sample_size (enc_of c2))
                                (config_L24_format (config c2) = L24_TRUNC16_PCM)
                                (encode_sample_rate (enc_of c2)) (output_channels (out_of c2))
                                (mimetypes c2) (config_raw_audio_format (config c2))
               in (mt, upd_encode (\<lambda>e. e\<lparr>encode_sample_size := ss, encode_mode := ENCODE_PCM\<rparr>) c2, es1))
         else (x_find_mimetype K (output_codec (out_of c1)) (mimetypes c1) None,
               upd_output (\<lambda>u. u\<lparr>output_codec :=
                  (if output_codec u = CHR ''f'' then CHR ''c'' else CHR ''*'')\<rparr>) c1, es1))"

text \<open>Lines 1088-1117: re-encoding to pcm.  In the middle case the source hands the result
  of \<open>find_pcm_mimetype\<close> to \<open>strstr\<close> without a check for NULL.\<close>

definition ps_mime_pcm :: "platform \<Rightarrow> metadata_s \<Rightarrow> ctx \<Rightarrow> (fault + string option) \<times> ctx" where
  "ps_mime_pcm K md c =
     (let e = enc_of c; l24 = (config_L24_format (config c) = L24_TRUNC16_PCM);
          raw = config_raw_audio_format (config c)
      in if encode_sample_rate e \<noteq> 0 \<and> encode_sample_size e \<noteq> 0
         then (let (mt, ss) = x_find_pcm_mimetype K (encode_sample_size e) l24
                                (encode_sample_rate e) 2 (mimetypes c) raw
               in (Inr mt, upd_encode (\<lambda>e. e\<lparr>encode_sample_size := ss\<rparr>) c))
         else if (md_sample_size md \<noteq> 0 \<or> encode_sample_size e \<noteq> 0) \<and>
                 (md_sample_rate md \<noteq> 0 \<or> encode_sample_rate e \<noteq> 0 \<or>
                  output_supported_rate0 (out_of c) \<noteq> 0)
         then (let sample_size = (if encode_sample_size e \<noteq> 0 then encode_sample_size e
                                  else md_sample_size md);
                   sample_rate = (if encode_sample_rate e \<noteq> 0 then encode_sample_rate e
                                  else if output_supported_rate0 (out_of c) < 0
                                  then \<bar>output_supported_rate0 (out_of c)\<bar>
                                  else md_sample_rate md);
                   (mt, ss) = x_find_pcm_mimetype K sample_size l24 sample_rate 2 (mimetypes c) raw
               in case mt of
                    None \<Rightarrow> (Inl Null_dereference, c)
                  | Some m \<Rightarrow> (Inr (Some (if strstr m ''audio/L'' \<noteq> None then ''*'' else m)), c))
         else (Inr (x_find_mimetype K (CHR ''p'') (mimetypes c)
                      (Some ((if stristr raw ''wav'' \<noteq> None then ''wav'' else []) @
                             (if stristr raw ''aif'' \<noteq> None then ''aif'' else [])))), c))"

text \<open>Lines 1119-1126 and 1128-1142: re-encoding to flac and to mp3.\<close>

definition ps_mime_flac :: "platform \<Rightarrow> ctx \<Rightarrow> string option \<times> ctx" where
  "ps_mime_flac K c =
     (let c1 = (if output_sample_size (out_of c) > 24
                then upd_encode (\<lambda>e. e\<lparr>encode_sample_size := 24\<rparr>) c else c);
          c2 = upd_encode (\<lambda>e. e\<lparr>encode_level :=
                  mode_param (config_mode (config c1)) ''flac:'' (encode_level e)\<rparr>) c1;
          c3 = (if encode_level (enc_of c2) > 9 then upd_encode (\<lambda>e. e\<lparr>encode_level := 0\<rparr>) c2 else c2)
      in (x_find_mimetype K (CHR ''f'') (mimetypes c) None, c3))"

definition ps_mime_mp3 :: "platform \<Rightarrow> ctx \<Rightarrow> string option \<times> ctx" where
  "ps_mime_mp3 K c =
     (let c1 = upd_encode (\<lambda>e. e\<lparr>encode_sample_size := 16\<rparr>) c;
          r0 = output_supported_rate0 (out_of c1);
          c2 = (if r0 = 0 \<or> r0 < - 48000
                then upd_output (\<lambda>u. u\<lparr>output_supported_rate0 := - 48000\<rparr>) c1
                else if r0 > 48000
                then upd_encode (\<lambda>e. e\<lparr>encode_sample_rate := 48000\<rparr>)
                       (upd_output (\<lambda>u. u\<lparr>output_supported_rate0 := 48000\<rparr>) c1)
                else c1);
          c3 = (case stristr (config_mode (config c2)) ''mp3:'' of
                  Some p \<Rightarrow> upd_encode (\<lambda>e. e\<lparr>encode_level :=
                              (if atoi (drop 4 p) > 320 then 320 else atoi (drop 4 p))\<rparr>) c2
                | None \<Rightarrow> upd_encode (\<lambda>e. e\<lparr>encode_level := 128\<rparr>) c2)
      in (x_find_mimetype K (CHR ''m'') (mimetypes c) None, c3))"

text \<open>Lines 1067-1142: the mime type for the player.\<close>

definition ps_mimetype ::
  "platform \<Rightarrow> metadata_s \<Rightarrow> ctx \<Rightarrow> (fault + string option) \<times> ctx \<times> effect list" where
  "ps_mimetype K md c =
     (if encode_mode (enc_of c) = ENCODE_THRU \<or>
         (encode_mode (enc_of c) = ENCODE_PCM \<and> output_codec (out_of c) = CHR ''p'')
      then (let (mt, c1, es) = ps_mime_thru K c in (Inr mt, c1, es))
      else if encode_mode (enc_of c) = ENCODE_PCM
      then (let (r, c1) = ps_mime_pcm K md c in (r, c1, []))
      else if encode_mode (enc_of c) = ENCODE_FLAC
      then (let (mt, c1) = ps_mime_flac K c in (Inr mt, c1, []))
      else (let (mt, c1) = ps_mime_mp3 K c in (Inr mt, c1, [])))"

text \<open>Lines 1145-1166: open the decoder, start the output, publish the track.  The URI that
  \<open>sprintf\<close> formats is kept as the index and the extension it is formatted from.\<close>

definition ps_open ::
  "platform \<Rightarrow> metadata_s \<Rightarrow> int \<Rightarrow> string option \<Rightarrow> ctx \<Rightarrow> bool \<times> ctx \<times> effect list" where
  "ps_open K md offset mimetype c =
     (case mimetype of
        None \<Rightarrow> (False, c, [])
      | Some m \<Rightarrow>
          (let c1 = upd_output (\<lambda>u. u\<lparr>output_mimetype := m, output_format := x_mimetype2format K m,
                                       output_out_endian := (x_mimetype2format K m = CHR ''w''),
                                       output_length := config_stream_length (config c)\<rparr>) c;
               (ok1, c2, es2) = codec_open K c1
           in if \<not> ok1 then (False, c2, es2)
              else (let (ok2, c3) = ext_r (x_output_start K) c2
                    in if \<not> ok2 then (False, c3, es2 @ [Output_start])
                       else (let info = \<lparr>tp_offset = offset, tp_metadata = md,
                                          tp_mimetype = output_mimetype (out_of c3),
                                          tp_uri_index = output_index (out_of c3),
                                          tp_uri_ext = x_mimetype2ext K (output_mimetype (out_of c3))\<rparr>;
                                 (ret, es4) = ctx_callback c3 SQ_SET_TRACK (Param_track info)
                             in (ret, c3, es2 @ [Output_start] @ es4)))))"

text \<open>\<^verbatim>\<open>static bool process_start(u8_t format, u32_t rate, u8_t size, u8_t channels,
  u8_t endianness, struct thread_ctx_s *ctx)\<close>: the returned value is \<open>Inr ret\<close>, or \<open>Inl\<close> where
  the C code reads outside a table or dereferences NULL.\<close>

definition process_start ::
  "platform \<Rightarrow> char \<Rightarrow> char \<Rightarrow> char \<Rightarrow> char \<Rightarrow> char \<Rightarrow> ctx \<Rightarrow> (fault + bool) \<times> ctx \<times> effect list" where
  "process_start K format rate sz channels endianness c =
     (let (c1, offset, es1) = ps_begin K c;
          md = x_sq_get_metadata K offset;
          c2 = upd_output (\<lambda>u. u\<lparr>output_completed := False, output_duration := md_duration md,
                                   output_bitrate := md_bitrate md, output_remote := md_remote md\<rparr>) c1;
          es2 = es1 @ [Sq_get_metadata offset]
      in case ps_source format rate sz channels endianness c2 of
           Inl f \<Rightarrow> (Inl f, c2, es2)
         | Inr c3 \<Rightarrow>
             if encode_flow (enc_of c3)
             then (let (ok, c4, es4) = codec_open K c3 in (Inr ok, c4, es2 @ es4))
             else (let (c4, md', es4) = ps_setup K md c3;
                       (r, c5, es5) = ps_mimetype K md' c4
                   in case r of
                        Inl f \<Rightarrow> (Inl f, c5, es2 @ es4 @ es5)
                      | Inr mt \<Rightarrow>
                          (let (ret, c6, es6) = ps_open K md' offset mt c5
                           in (Inr ret, c6, es2 @ es4 @ es5 @ es6))))"

subsection \<open>Calls of the collaborators\<close>

definition decode_flush :: "platform \<Rightarrow> ctx \<Rightarrow> ctx \<times> effect list" where
  "decode_flush K c = (ext (x_decode_flush K) c, [Decode_flush])"

definition output_flush :: "platform \<Rightarrow> ctx \<Rightarrow> ctx \<times> effect list" where
  "output_flush K c = (ext (x_output_flush K) c, [Output_flush])"

definition stream_disconnect :: "platform \<Rightarrow> ctx \<Rightarrow> bool \<times> ctx \<times> effect list" where
  "stream_disconnect K c =
     (let (r, c1) = ext_r (x_stream_disconnect K) c in (r, c1, [Stream_disconnect]))"

definition buf_flush :: "platform \<Rightarrow> ctx \<Rightarrow> ctx \<times> effect list" where
  "buf_flush K c = (ext (x_buf_flush K) c, [Buf_flush])"

definition stream_sock ::
  "platform \<Rightarrow> bytes \<Rightarrow> bytes \<Rightarrow> bytes \<Rightarrow> u32 \<Rightarrow> nat \<Rightarrow> bool \<Rightarrow> ctx \<Rightarrow> ctx \<times> effect list" where
  "stream_sock K ip port header header_len threshold cont_wait c =
     (ext (x_stream_sock K ip port header header_len threshold cont_wait) c,
      [Stream_sock ip port header header_len threshold cont_wait])"

definition set_ms_played :: "u32 \<Rightarrow> ctx \<Rightarrow> ctx" where
  "set_ms_played v c = c\<lparr>status := (status c)\<lparr>status_ms_played := v\<rparr>\<rparr>"

subsection \<open>process_strm\<close>

text \<open>\<^verbatim>\<open>case 't'\<close>\<close>

definition strm_t :: "strm_packet \<Rightarrow> ctx \<Rightarrow> ctx \<times> effect list" where
  "strm_t strm c = (c, [SendSTAT ''STMt'' (strm_replay_gain strm)])"

text \<open>\<^verbatim>\<open>case 'f'\<close>\<close>

definition strm_f :: "platform \<Rightarrow> ctx \<Rightarrow> ctx \<times> effect list" where
  "strm_f K c =
     (let (c1, es1) = decode_flush K c;
          (c2, es2) = output_flush K c1;
          (r, c3, es3) = stream_disconnect K c2;
          c4 = set_ms_played 0 c3;
          (c5, es5) = buf_flush K c4
      in (c5, es1 @ es2 @ es3 @ [SendSTAT ''STMf'' zero32] @ es5))"

text \<open>\<^verbatim>\<open>case 'q'\<close>\<close>

definition strm_q :: "platform \<Rightarrow> ctx \<Rightarrow> ctx \<times> effect list" where
  "strm_q K c =
     (let (c1, es1) = decode_flush K c;
          (c2, es2) = output_flush K c1;
          c3 = set_ms_played 0 c2;
          (r, c4, es4) = stream_disconnect K c3;
          es4' = (if r then [SendSTAT ''STMf'' zero32] else []);
          (c5, es5) = buf_flush K c4;
          es6 = (if last_command c5 \<noteq> CHR ''q'' then snd (ctx_callback c5 SQ_STOP No_param) else [])
      in (c5, es1 @ es2 @ es4 @ es4' @ es5 @ es6))"

text \<open>\<^verbatim>\<open>case 'p'\<close>\<close>

definition strm_p :: "strm_packet \<Rightarrow> ctx \<Rightarrow> ctx \<times> effect list" where
  "strm_p strm c =
     (let interval = unpackN (strm_replay_gain strm)
      in if interval = 0
         then (let c1 = upd_output (\<lambda>u. u\<lparr>output_state := OUTPUT_WAITING\<rparr>) c
               in (c1, [LOCK MUTEX_O, UNLOCK MUTEX_O] @ snd (ctx_callback c1 SQ_PAUSE No_param) @
                       [SendSTAT ''STMp'' zero32]))
         else (c, []))"

text \<open>\<^verbatim>\<open>case 'u'\<close>\<close>

definition strm_u :: "strm_packet \<Rightarrow> ctx \<Rightarrow> ctx \<times> effect list" where
  "strm_u strm c =
     (let jiffies = unpackN (strm_replay_gain strm);
          es1 = snd (ctx_callback c SQ_UNPAUSE No_param);
          c1 = upd_output (\<lambda>u. u\<lparr>output_state := OUTPUT_RUNNING, output_start_at := jiffies\<rparr>) c
      in (c1, es1 @ [LOCK MUTEX_O, UNLOCK MUTEX_O, SendSTAT ''STMr'' zero32]))"

text \<open>\<^verbatim>\<open>case 's'\<close>.  \<open>header_len\<close> is \<^verbatim>\<open>unsigned\<close>: a frame shorter than the structure makes
  it wrap around.\<close>

definition strm_s_begin :: "strm_packet \<Rightarrow> ctx \<Rightarrow> ctx" where
  "strm_s_begin strm c = c\<lparr>autostart := of_char (strm_autostart strm) - of_char (CHR ''0'')\<rparr>"

definition strm_s_fade :: "strm_packet \<Rightarrow> ctx \<Rightarrow> ctx" where
  "strm_s_fade strm c =
     upd_output (\<lambda>u. u\<lparr>
       output_next_replay_gain := unpackN (strm_replay_gain strm),
       output_fade_mode := of_char (strm_transition_type strm) - of_char (CHR ''0''),
       output_fade_secs := of_char (strm_transition_period strm)\<rparr>) c"

definition reset_latches :: "ctx \<Rightarrow> ctx" where
  "reset_latches c =
     c\<lparr>canSTMdu := False, sentSTMu := False, sentSTMo := False, sentSTMl := False,
       sentSTMd := False\<rparr>"

text \<open>Lines 326-335: the stream is connected, the latches are reset, a codec error is
  reported.\<close>

definition strm_s_connect ::
  "platform \<Rightarrow> (nat \<Rightarrow> char) \<Rightarrow> int \<Rightarrow> strm_packet \<Rightarrow> bytes \<Rightarrow> bool \<Rightarrow> ctx \<Rightarrow> ctx \<times> effect list" where
  "strm_s_connect K pkt len strm ip sendSTMn c =
     (let header_len = (word_of_int (len - int sizeof_strm_packet) :: u32);
          header = bytes_at pkt sizeof_strm_packet (unat header_len);
          (c1, es1) = stream_sock K ip (strm_server_port strm) header header_len
                        (of_char (strm_threshold strm) * 1024) (autostart c \<ge> 2) c
      in (reset_latches c1,
          es1 @ [SendSTAT ''STMc'' zero32] @ (if sendSTMn then [SendSTAT ''STMn'' zero32] else [])))"

definition strm_s ::
  "platform \<Rightarrow> (nat \<Rightarrow> char) \<Rightarrow> int \<Rightarrow> strm_packet \<Rightarrow> ctx \<Rightarrow> ctx \<times> effect list \<times> fault option" where
  "strm_s K pkt len strm c =
     (let header_len = (word_of_int (len - int sizeof_strm_packet) :: u32);
          ip = (if raw_zero (strm_server_ip strm) then slimproto_ip c else strm_server_ip strm);
          c1 = strm_s_begin strm c;
          es1 = [SendSTAT ''STMf'' zero32]
      in if header_len > MAX_HEADER K - 1 then (c1, es1, None)
         else
          (let c2 = strm_s_fade strm c1
           in if strm_format strm \<noteq> CHR ''?''
              then (case process_start K (strm_format strm) (strm_pcm_sample_rate strm)
                           (strm_pcm_sample_size strm) (strm_pcm_channels strm)
                           (strm_pcm_endianness strm) c2 of
                      (Inl f, c3, es3) \<Rightarrow> (c3, es1 @ es3, Some f)
                    | (Inr ret, c3, es3) \<Rightarrow>
                        (let (c4, es4) = strm_s_connect K pkt len strm ip (\<not> ret) c3
                         in (c4, es1 @ es3 @ es4, None)))
              else if autostart c2 \<ge> 2
              then (let (c4, es4) = strm_s_connect K pkt len strm ip False c2
                    in (c4, es1 @ es4, None))
              else (c2, es1, None)))"

text \<open>\<^verbatim>\<open>static void process_strm(u8_t *pkt, int len, struct thread_ctx_s *ctx)\<close>\<close>

definition process_strm ::
  "platform \<Rightarrow> (nat \<Rightarrow> char) \<Rightarrow> int \<Rightarrow> ctx \<Rightarrow> ctx \<times> effect list \<times> fault option" where
  "process_strm K pkt len c =
     (let strm = strm_packet_of pkt;
          cmd = strm_command strm;
          (c1, es, flt) =
            (if cmd = CHR ''t'' then (let (c', es') = strm_t strm c in (c', es', None))
             else if cmd = CHR ''f'' then (let (c', es') = strm_f K c in (c', es', None))
             else if cmd = CHR ''q'' then (let (c', es') = strm_q K c in (c', es', None))
             else if cmd = CHR ''p'' then (let (c', es') = strm_p strm c in (c', es', None))
             else if cmd = CHR ''a'' then (c, [], None)
             else if cmd = CHR ''u'' then (let (c', es') = strm_u strm c in (c', es', None))
             else if cmd = CHR ''s'' then strm_s K pkt len strm c
             else (c, [], None))
      in case flt of
           None \<Rightarrow> (c1\<lparr>last_command := cmd\<rparr>, es, None)
         | Some f \<Rightarrow> (c1, es, Some f))"

subsection \<open>The other opcode handlers\<close>

text \<open>The handlers are called with \<open>pkt\<close> pointing at \<^verbatim>\<open>ctx->slim_run.buffer\<close> (the only call is
  in \<open>slimproto_run\<close>): what a handler writes through \<open>pkt\<close> lands in that buffer.\<close>

definition write_pkt :: "nat \<Rightarrow> bytes \<Rightarrow> ctx \<Rightarrow> ctx" where
  "write_pkt off bs c =
     c\<lparr>slim_run := (slim_run c)\<lparr>slim_run_buffer :=
         (\<lambda>i. if off \<le> i \<and> i < off + length bs then bs ! (i - off) else slim_run_buffer (slim_run c) i)\<rparr>\<rparr>"

text \<open>\<^verbatim>\<open>static void process_cont(u8_t *pkt, int len, struct thread_ctx_s *ctx)\<close>\<close>

definition process_cont :: "platform \<Rightarrow> (nat \<Rightarrow> char) \<Rightarrow> int \<Rightarrow> ctx \<Rightarrow> ctx \<times> effect list" where
  "process_cont K pkt len c =
     (let metaint = unpackN (bytes_at pkt 4 4);
          c1 = write_pkt 4 (host_bytes32 K metaint) c
      in if autostart c1 > 1
         then (let c2 = c1\<lparr>autostart := autostart c1 - 2\<rparr>;
                   c3 = (if stream_state (stream c2) = STREAMING_WAIT
                         then c2\<lparr>stream := (stream c2)\<lparr>stream_state := STREAMING_BUFFERING,
                                   stream_meta_interval := metaint, stream_meta_next := metaint\<rparr>\<rparr>
                         else c2)
               in (c3, [LOCK MUTEX_S, UNLOCK MUTEX_S, Wake_controller]))
         else (c1, []))"

text \<open>\<^verbatim>\<open>static void process_codc(u8_t *pkt, int len, struct thread_ctx_s *ctx)\<close>\<close>

definition process_codc ::
  "platform \<Rightarrow> (nat \<Rightarrow> char) \<Rightarrow> int \<Rightarrow> ctx \<Rightarrow> ctx \<times> effect list \<times> fault option" where
  "process_codc K pkt len c =
     (case process_start K (pkt 4) (pkt 6) (pkt 5) (pkt 7) (pkt 8) c of
        (Inl f, c1, es1) \<Rightarrow> (c1, es1, Some f)
      | (Inr ret, c1, es1) \<Rightarrow>
          (c1, es1 @ (if \<not> ret then [SendSTAT ''STMn'' zero32] else []), None))"

text \<open>\<^verbatim>\<open>static void process_aude(u8_t *pkt, int len, struct thread_ctx_s *ctx)\<close>\<close>

definition process_aude :: "(nat \<Rightarrow> char) \<Rightarrow> int \<Rightarrow> ctx \<Rightarrow> ctx \<times> effect list" where
  "process_aude pkt len c =
     (let c1 = c\<lparr>ctx_on := (pkt 4 \<noteq> CHR 0x00)\<rparr>
      in (c1, [LOCK MUTEX_O, UNLOCK MUTEX_O] @
              snd (ctx_callback c1 SQ_ONOFF (Param_onoff (ctx_on c1)))))"

text \<open>\<^verbatim>\<open>static void process_audg(u8_t *pkt, int len, struct thread_ctx_s *ctx)\<close>: the gain is
  \<^verbatim>\<open>(audg->old_gainL + audg->old_gainL) / 2\<close> in 32 bits, stored in a \<^verbatim>\<open>u16_t\<close>.\<close>

definition process_audg :: "platform \<Rightarrow> (nat \<Rightarrow> char) \<Rightarrow> int \<Rightarrow> ctx \<Rightarrow> ctx \<times> effect list" where
  "process_audg K pkt len c =
     (let old_gainL = unpackN (bytes_at pkt 4 4);
          old_gainR = unpackN (bytes_at pkt 8 4);
          c1 = write_pkt 8 (host_bytes32 K old_gainR) (write_pkt 4 (host_bytes32 K old_gainL) c);
          gain = (ucast ((old_gainL + old_gainL) div 2) :: u16)
      in (c1, if pkt 12 \<noteq> CHR 0x00 then snd (ctx_callback c1 SQ_VOLUME (Param_volume gain)) else []))"

text \<open>\<^verbatim>\<open>static void process_setd(u8_t *pkt, int len, struct thread_ctx_s *ctx)\<close>\<close>

definition process_setd :: "platform \<Rightarrow> (nat \<Rightarrow> char) \<Rightarrow> int \<Rightarrow> ctx \<Rightarrow> ctx \<times> effect list" where
  "process_setd K pkt len c =
     (if pkt 4 = CHR 0x00
      then (if len = 5
            then (c, if config_name (config c) \<noteq> [] then [SendSETDName (config_name (config c))] else [])
            else if len > 5
            then (let data = cstring_at pkt 5;
                      c1 = c\<lparr>config := (config c)\<lparr>config_name := take (STR_LEN K - 1) data\<rparr>\<rparr>
                  in (c1, [SendSETDName data] @
                          snd (ctx_callback c1 SQ_SETNAME (Param_name (config_name (config c1))))))
            else (c, []))
      else (c, []))"

text \<open>\<^verbatim>\<open>#define SYNC_CAP ",SyncgroupID="\<close>\<close>

definition SYNC_CAP :: string where
  "SYNC_CAP = '',SyncgroupID=''"

text \<open>\<^verbatim>\<open>static void process_serv(u8_t *pkt, int len, struct thread_ctx_s *ctx)\<close>.  \<open>strncat\<close> copies
  at most 10 bytes and stops at a NUL.  \<^verbatim>\<open>len - sizeof(struct serv_packet) == 10\<close> is computed
  in \<open>size_t\<close>; no other \<open>len\<close> of type \<open>int\<close> than 18 makes it true.\<close>

definition process_serv :: "(nat \<Rightarrow> char) \<Rightarrow> int \<Rightarrow> ctx \<Rightarrow> ctx \<times> effect list" where
  "process_serv pkt len c =
     (let c1 = c\<lparr>new_server := bytes_at pkt 4 4\<rparr>;
          c2 = (if len - int sizeof_serv_packet = 10
                then c1\<lparr>new_server_cap :=
                        Some (SYNC_CAP @ takeWhile (\<lambda>b. b \<noteq> CHR 0x00) (bytes_at pkt sizeof_serv_packet 10))\<rparr>
                else c1\<lparr>new_server_cap := None\<rparr>)
      in (c2, snd (ctx_callback c2 SQ_SETSERVER (Param_server (new_server c2)))))"

text \<open>\<open>process_ledc\<close> and \<open>process_vers\<close> only write to the log.\<close>

definition process_ledc :: "(nat \<Rightarrow> char) \<Rightarrow> int \<Rightarrow> ctx \<Rightarrow> ctx \<times> effect list" where
  "process_ledc pkt len c = (c, [])"

definition process_vers :: "(nat \<Rightarrow> char) \<Rightarrow> int \<Rightarrow> ctx \<Rightarrow> ctx \<times> effect list" where
  "process_vers pkt len c = (c, [])"

text \<open>\<^verbatim>\<open>static void process(u8_t *pack, int len, struct thread_ctx_s *ctx)\<close>: the first handler
  of the table whose opcode \<^verbatim>\<open>strncmp(pack, opcode, 4)\<close> finds at the start of the packet.\<close>

definition no_fault :: "ctx \<times> effect list \<Rightarrow> ctx \<times> effect list \<times> fault option" where
  "no_fault r = (fst r, snd r, None)"

definition process :: "platform \<Rightarrow> (nat \<Rightarrow> char) \<Rightarrow> int \<Rightarrow> ctx \<Rightarrow> ctx \<times> effect list \<times> fault option" where
  "process K pack len c =
     (let opcode = bytes_at pack 0 4
      in if opcode = ''strm'' then process_strm K pack len c
         else if opcode = ''cont'' then no_fault (process_cont K pack len c)
         else if opcode = ''codc'' then process_codc K pack len c
         else if opcode = ''aude'' then no_fault (process_aude pack len c)
         else if opcode = ''audg'' then no_fault (process_audg K pack len c)
         else if opcode = ''setd'' then no_fault (process_setd K pack len c)
         else if opcode = ''serv'' then no_fault (process_serv pack len c)
         else if opcode = ''ledc'' then no_fault (process_ledc pack len c)
         else if opcode = ''vers'' then no_fault (process_vers pack len c)
         else (write_pkt 4 [CHR 0x00] c, [Log_unhandled], None))"

subsection \<open>The status ticker\<close>

text \<open>The local flags of the block at lines 593-757 of \<open>slimproto_run\<close> (\<^verbatim>\<open>_sendSTMs\<close>, ...),
  all false at its start.\<close>

record tick_flags =
  fl_sendSTMs :: bool
  fl_sendDSCO :: bool
  fl_sendRESP :: bool
  fl_sendMETA :: bool
  fl_sendSTMd :: bool
  fl_sendSTMt :: bool
  fl_sendSTMl :: bool
  fl_sendSTMu :: bool
  fl_sendSTMo :: bool
  fl_sendSTMn :: bool
  fl_stream_disconnect :: bool
  fl_disconnect_code :: disconnect_code
  fl_header_len :: nat

definition no_flags :: tick_flags where
  "no_flags =
     \<lparr>fl_sendSTMs = False, fl_sendDSCO = False, fl_sendRESP = False, fl_sendMETA = False,
      fl_sendSTMd = False, fl_sendSTMt = False, fl_sendSTMl = False, fl_sendSTMu = False,
      fl_sendSTMo = False, fl_sendSTMn = False, fl_stream_disconnect = False,
      fl_disconnect_code = DISCONNECT_OK, fl_header_len = 0\<rparr>"

definition upd_status :: "(status_s \<Rightarrow> status_s) \<Rightarrow> ctx \<Rightarrow> ctx" where
  "upd_status f c = c\<lparr>status := f (status c)\<rparr>"

definition upd_stream :: "(streamstate \<Rightarrow> streamstate) \<Rightarrow> ctx \<Rightarrow> ctx" where
  "upd_stream f c = c\<lparr>stream := f (stream c)\<rparr>"

text \<open>\<^verbatim>\<open>memcpy(ctx->slim_run.header, ctx->stream.header, header_len)\<close>\<close>

definition copy_header :: "ctx \<Rightarrow> ctx" where
  "copy_header c =
     c\<lparr>slim_run := (slim_run c)\<lparr>slim_run_header :=
         take (stream_header_len (stream c)) (stream_header (stream c)) @
         drop (stream_header_len (stream c)) (slim_run_header (slim_run c))\<rparr>\<rparr>"

text \<open>Lines 612-615: the snapshot taken under \<open>LOCK_S\<close>.\<close>

definition tick_sample_stream :: "platform \<Rightarrow> ctx \<Rightarrow> ctx" where
  "tick_sample_stream K c =
     upd_status (\<lambda>s. s\<lparr>status_stream_full := x_buf_used K (streambuf c),
                         status_stream_size := of_nat (buf_size (streambuf c)),
                         status_stream_bytes := stream_bytes (stream c),
                         status_stream_state := stream_state (stream c)\<rparr>) c"

text \<open>Lines 617-621: the stream has disconnected.\<close>

definition tick_dsco :: "ctx \<times> tick_flags \<Rightarrow> ctx \<times> tick_flags" where
  "tick_dsco cf =
     (let (c, fl) = cf
      in if stream_state (stream c) = DISCONNECT
         then (upd_stream (\<lambda>s. s\<lparr>stream_state := STOPPED\<rparr>) c,
               fl\<lparr>fl_disconnect_code := stream_disconnect_code (stream c), fl_sendDSCO := True\<rparr>)
         else (c, fl))"

text \<open>Lines 623-630: the response headers of the stream, once.\<close>

definition tick_resp :: "ctx \<times> tick_flags \<Rightarrow> ctx \<times> tick_flags" where
  "tick_resp cf =
     (let (c, fl) = cf
      in if \<not> stream_sent_headers (stream c) \<and>
            (stream_state (stream c) = STREAMING_HTTP \<or> stream_state (stream c) = STREAMING_WAIT \<or>
             stream_state (stream c) = STREAMING_BUFFERING)
         then (upd_stream (\<lambda>s. s\<lparr>stream_sent_headers := True\<rparr>) (copy_header c),
               fl\<lparr>fl_header_len := stream_header_len (stream c), fl_sendRESP := True\<rparr>)
         else (c, fl))"

text \<open>Lines 631-636: ICY metadata to pass on.\<close>

definition tick_meta :: "ctx \<times> tick_flags \<Rightarrow> ctx \<times> tick_flags" where
  "tick_meta cf =
     (let (c, fl) = cf
      in if stream_meta_send (stream c)
         then (upd_stream (\<lambda>s. s\<lparr>stream_meta_send := False\<rparr>) (copy_header c),
               fl\<lparr>fl_header_len := stream_header_len (stream c), fl_sendMETA := True\<rparr>)
         else (c, fl))"

text \<open>Lines 610-638, between \<open>LOCK_S\<close> and \<open>UNLOCK_S\<close>.\<close>

definition tick_stream :: "platform \<Rightarrow> ctx \<times> tick_flags \<Rightarrow> ctx \<times> tick_flags" where
  "tick_stream K cf = tick_meta (tick_resp (tick_dsco (tick_sample_stream K (fst cf), snd cf)))"

text \<open>Lines 641-646: the snapshot taken under \<open>LOCK_O\<close>.\<close>

definition tick_sample_output :: "ctx \<Rightarrow> ctx" where
  "tick_sample_output c =
     upd_status (\<lambda>s. s\<lparr>
       status_output_full := (if sentSTMu c then 0 else of_nat (buf_size (outputbuf c) div 2)),
       status_output_size := of_nat (buf_size (outputbuf c)),
       status_sample_rate := output_sample_rate (out_of c),
       status_output_ready := (output_completed (out_of c) \<or> encode_flow (enc_of c)),
       status_duration := render_duration (render c),
       status_ms_played := render_ms_played (render c)\<rparr>) c"

text \<open>Lines 648-653: streaming properly started.\<close>

definition tick_started :: "ctx \<times> tick_flags \<Rightarrow> ctx \<times> tick_flags" where
  "tick_started cf =
     (let (c, fl) = cf
      in if output_track_started (out_of c)
         then ((upd_output (\<lambda>u. u\<lparr>output_track_started := False\<rparr>) c)\<lparr>canSTMdu := True\<rparr>,
               fl\<lparr>fl_sendSTMs := True\<rparr>)
         else (c, fl))"

text \<open>Lines 655-662: streaming failed, nothing was received.\<close>

definition nothing_received :: "ctx \<Rightarrow> bool" where
  "nothing_received c =
     (status_stream_bytes (status c) = 0 \<and> output_completed (out_of c) \<and>
      output_state (out_of c) = OUTPUT_RUNNING)"

definition tick_failed :: "ctx \<times> tick_flags \<Rightarrow> (ctx \<times> tick_flags) \<times> effect list" where
  "tick_failed cf =
     (let (c, fl) = cf
      in if nothing_received c
         then ((c\<lparr>render := (render c)\<lparr>render_state := RD_STOPPED\<rparr>, canSTMdu := True\<rparr>,
                fl\<lparr>fl_sendSTMn := True\<rparr>), [Log_nothing_received])
         else ((c, fl), []))"

text \<open>Lines 664-673: normal end of track with underrun.\<close>

definition underrun_due :: "platform \<Rightarrow> ctx \<Rightarrow> bool" where
  "underrun_due K c =
     (output_state (out_of c) = OUTPUT_RUNNING \<and> \<not> sentSTMu c \<and>
      status_output_ready (status c) \<and>
      stream_rank K (status_stream_state (status c)) \<le> stream_rank K DISCONNECT \<and>
      render_state (render c) = RD_STOPPED \<and> canSTMdu c)"

definition tick_underrun :: "platform \<Rightarrow> ctx \<times> tick_flags \<Rightarrow> ctx \<times> tick_flags" where
  "tick_underrun K cf =
     (let (c, fl) = cf
      in if underrun_due K c
         then (upd_output (\<lambda>u. u\<lparr>output_state := OUTPUT_STOPPED\<rparr>)
                 (upd_encode (\<lambda>e. e\<lparr>encode_flow := False\<rparr>)
                   (upd_status (\<lambda>s. s\<lparr>status_output_full := 0\<rparr>) (c\<lparr>sentSTMu := True\<rparr>))),
               fl\<lparr>fl_sendSTMu := True\<rparr>)
         else (c, fl))"

text \<open>Lines 675-682: data still to be sent, try an overrun.\<close>

definition overrun_due :: "ctx \<Rightarrow> bool" where
  "overrun_due c =
     (output_state (out_of c) = OUTPUT_RUNNING \<and> \<not> sentSTMo c \<and>
      status_stream_state (status c) = STREAMING_HTTP \<and>
      render_state (render c) = RD_STOPPED \<and> canSTMdu c)"

definition tick_overrun :: "ctx \<times> tick_flags \<Rightarrow> ctx \<times> tick_flags" where
  "tick_overrun cf =
     (let (c, fl) = cf
      in if overrun_due c
         then (upd_output (\<lambda>u. u\<lparr>output_state := OUTPUT_STOPPED\<rparr>) (c\<lparr>sentSTMo := True\<rparr>),
               fl\<lparr>fl_sendSTMo := True\<rparr>)
         else (c, fl))"

text \<open>Lines 640-684, between \<open>LOCK_O\<close> and \<open>UNLOCK_O\<close>.\<close>

definition tick_output :: "platform \<Rightarrow> ctx \<times> tick_flags \<Rightarrow> (ctx \<times> tick_flags) \<times> effect list" where
  "tick_output K cf =
     (let (cf1, es) = tick_failed (tick_started (tick_sample_output (fst cf), snd cf))
      in (tick_overrun (tick_underrun K cf1), es))"

text \<open>Lines 688-691: the periodic STMt.\<close>

definition timer_due :: "u32 \<Rightarrow> ctx \<Rightarrow> bool" where
  "timer_due now c = (decode_state (decode c) = DECODE_RUNNING \<and> now - status_last (status c) > 1000)"

definition tick_timer :: "u32 \<Rightarrow> ctx \<times> tick_flags \<Rightarrow> ctx \<times> tick_flags" where
  "tick_timer now cf =
     (let (c, fl) = cf
      in if timer_due now c
         then (upd_status (\<lambda>s. s\<lparr>status_last := now\<rparr>) c, fl\<lparr>fl_sendSTMt := True\<rparr>)
         else (c, fl))"

text \<open>Lines 693-709: the decoder is ready and the stream delivers.\<close>

definition loaded_due :: "ctx \<Rightarrow> bool" where
  "loaded_due c =
     ((status_stream_state (status c) = STREAMING_HTTP \<or>
       status_stream_state (status c) = STREAMING_FILE \<or>
       (status_stream_state (status c) = DISCONNECT \<and>
        stream_disconnect_code (stream c) = DISCONNECT_OK)) \<and>
      \<not> sentSTMl c \<and> decode_state (decode c) = DECODE_READY)"

definition tick_loaded :: "ctx \<times> tick_flags \<Rightarrow> (ctx \<times> tick_flags) \<times> effect list" where
  "tick_loaded cf =
     (let (c, fl) = cf
      in if loaded_due c
         then (if autostart c = 0
               then (let c1 = c\<lparr>decode := (decode c)\<lparr>decode_state := DECODE_RUNNING\<rparr>, sentSTMl := True\<rparr>
                     in ((c1, fl\<lparr>fl_sendSTMl := True\<rparr>), snd (ctx_callback c1 SQ_PLAY No_param)))
               else if autostart c = 1
               then (let c1 = upd_output (\<lambda>u. u\<lparr>output_state := OUTPUT_RUNNING\<rparr>)
                                (c\<lparr>decode := (decode c)\<lparr>decode_state := DECODE_RUNNING\<rparr>\<rparr>)
                     in ((c1, fl), [LOCK MUTEX_O, UNLOCK MUTEX_O] @ snd (ctx_callback c1 SQ_PLAY No_param)))
               else ((c, fl), snd (ctx_callback c SQ_PLAY No_param)))
         else ((c, fl), []))"

text \<open>Lines 727-740: the decoder has finished, or failed.\<close>

definition stmd_gate :: "platform \<Rightarrow> ctx \<Rightarrow> bool" where
  "stmd_gate K c =
     (encode_flow (enc_of c) \<or> \<not> output_remote (out_of c) \<or>
      (status_duration (status c) \<noteq> 0 \<and>
       status_duration (status c) - status_ms_played (status c) < STREAM_DELAY K))"

definition decoded_due :: "platform \<Rightarrow> ctx \<Rightarrow> bool" where
  "decoded_due K c =
     (decode_state (decode c) = DECODE_COMPLETE \<and> canSTMdu c \<and>
      status_output_ready (status c) \<and> stmd_gate K c)"

definition tick_decoded :: "platform \<Rightarrow> ctx \<times> tick_flags \<Rightarrow> ctx \<times> tick_flags" where
  "tick_decoded K cf =
     (let (c, fl) = cf
      in if decoded_due K c \<or> decode_state (decode c) = DECODE_ERROR
         then (c\<lparr>decode := (decode c)\<lparr>decode_state := DECODE_STOPPED\<rparr>\<rparr>,
               fl\<lparr>fl_sendSTMd := (decode_state (decode c) = DECODE_COMPLETE \<or> fl_sendSTMd fl),
                  fl_sendSTMn := (decode_state (decode c) = DECODE_ERROR \<or> fl_sendSTMn fl),
                  fl_stream_disconnect :=
                    (status_stream_state (status c) = STREAMING_HTTP \<or>
                     status_stream_state (status c) = STREAMING_FILE \<or> fl_stream_disconnect fl)\<rparr>)
         else (c, fl))"

text \<open>Lines 686-742, between \<open>LOCK_D\<close> and \<open>UNLOCK_D\<close>.\<close>

definition tick_decode :: "platform \<Rightarrow> u32 \<Rightarrow> ctx \<times> tick_flags \<Rightarrow> (ctx \<times> tick_flags) \<times> effect list" where
  "tick_decode K now cf =
     (let (cf1, es) = tick_loaded (tick_timer now cf) in (tick_decoded K cf1, es))"

text \<open>Lines 747-756: the packets, sent in this order once the locks are released.\<close>

definition tick_sends :: "ctx \<Rightarrow> tick_flags \<Rightarrow> effect list" where
  "tick_sends c fl =
     (if fl_sendDSCO fl then [SendDSCO (fl_disconnect_code fl)] else []) @
     (if fl_sendSTMs fl then [SendSTAT ''STMs'' zero32] else []) @
     (if fl_sendSTMt fl then [SendSTAT ''STMt'' zero32] else []) @
     (if fl_sendSTMl fl then [SendSTAT ''STMl'' zero32] else []) @
     (if fl_sendSTMd fl then [SendSTAT ''STMd'' zero32] else []) @
     (if fl_sendSTMu fl then [SendSTAT ''STMu'' zero32] else []) @
     (if fl_sendSTMo fl then [SendSTAT ''STMo'' zero32] else []) @
     (if fl_sendSTMn fl then [SendSTAT ''STMn'' zero32] else []) @
     (if fl_sendRESP fl then [SendRESP (take (fl_header_len fl) (slim_run_header (slim_run c)))] else []) @
     (if fl_sendMETA fl then [SendMETA (take (fl_header_len fl) (slim_run_header (slim_run c)))] else [])"

text \<open>Lines 594-757: one run of the status ticker, at time \<open>now\<close>.\<close>

definition status_ticker :: "platform \<Rightarrow> u32 \<Rightarrow> ctx \<Rightarrow> ctx \<times> effect list" where
  "status_ticker K now c =
     (let c0 = c\<lparr>slim_run := (slim_run c)\<lparr>slim_run_last := now\<rparr>\<rparr>;
          (c1, fl1) = tick_stream K (c0, no_flags);
          ((c2, fl2), es2) = tick_output K (c1, fl1);
          ((c3, fl3), es3) = tick_decode K now (c2, fl2);
          (c4, es4) = (if fl_stream_disconnect fl3
                       then (let (r, c', es') = stream_disconnect K c3 in (c', es'))
                       else (c3, []))
      in (c4, [LOCK MUTEX_S, UNLOCK MUTEX_S, LOCK MUTEX_O] @ es2 @ [UNLOCK MUTEX_O, LOCK MUTEX_D] @
              es3 @ [UNLOCK MUTEX_D] @ es4 @ tick_sends c4 fl3))"

text \<open>The locals \<^verbatim>\<open>_sendDSCO\<close>, \<^verbatim>\<open>_sendSTMs\<close>, ... of that run as they stand at line 744, when
  the last lock has been released and the packets are about to be sent.\<close>

definition ticker_flags :: "platform \<Rightarrow> u32 \<Rightarrow> ctx \<Rightarrow> tick_flags" where
  "ticker_flags K now c =
     snd (fst (tick_decode K now (fst (tick_output K
       (tick_stream K (c\<lparr>slim_run := (slim_run c)\<lparr>slim_run_last := now\<rparr>\<rparr>, no_flags))))))"

subsection \<open>slimproto_run: the receive pump and the ticker's loop\<close>

text \<open>The loop blocks in \<open>wait_readwake\<close>, and what happens meanwhile comes from outside: a
  \<open>wakeup\<close> says what one pass of the loop meets.  The other threads act on the shared part
  of the context while the controller waits; bytes from the server queue up in the socket,
  and \<open>recv\<close> takes from the front of the queue, at most as many as it is asked for.\<close>

datatype sock_status = Sock_open | Sock_closed | Sock_error

record wakeup =
  wk_stop :: bool
  wk_threads :: "shared \<Rightarrow> shared"
  wk_arrived :: bytes
  wk_event :: event_type
  wk_sock :: sock_status
  wk_cli_now :: u32
  wk_cli_trylock :: bool
  wk_now :: u32

text \<open>The context with the locals \<open>expect\<close>, \<open>got\<close> and \<open>timeouts\<close> of \<open>slimproto_run\<close>, and the
  bytes waiting in the control socket.\<close>

record run_state =
  rs_ctx :: ctx
  rs_expect :: int
  rs_got :: int
  rs_timeouts :: int
  rs_inbox :: bytes

datatype recv_result = Recv_bytes bytes | Recv_zero | Recv_wouldblock | Recv_error

definition recv :: "sock_status \<Rightarrow> bytes \<Rightarrow> nat \<Rightarrow> recv_result \<times> bytes" where
  "recv st inbox n =
     (if inbox \<noteq> [] \<and> 0 < n then (Recv_bytes (take n inbox), drop n inbox)
      else ((case st of Sock_open \<Rightarrow> Recv_wouldblock | Sock_closed \<Rightarrow> Recv_zero
             | Sock_error \<Rightarrow> Recv_error), inbox))"

datatype step_next = Next_proceed | Next_continue | Next_return | Next_fault fault

datatype run_exit = Returned | Faulted fault | Waiting

text \<open>Lines 518-532: the body of a frame is awaited (\<open>expect > 0\<close>).\<close>

definition read_body :: "platform \<Rightarrow> wakeup \<Rightarrow> run_state \<Rightarrow> run_state \<times> effect list \<times> step_next" where
  "read_body K w rs =
     (case recv (wk_sock w) (rs_inbox rs) (nat (rs_expect rs)) of
        (Recv_wouldblock, rest) \<Rightarrow> (rs, [], Next_continue)
      | (Recv_zero, rest) \<Rightarrow> (rs, [], Next_return)
      | (Recv_error, rest) \<Rightarrow> (rs, [], Next_return)
      | (Recv_bytes bs, rest) \<Rightarrow>
          (let c1 = write_pkt (nat (rs_got rs)) bs (rs_ctx rs);
               expect = rs_expect rs - int (length bs);
               got = rs_got rs + int (length bs)
           in if expect = 0
              then (let pack = slim_run_buffer (slim_run c1);
                        (c2, es, flt) = process K pack got c1
                    in (rs\<lparr>rs_ctx := c2, rs_expect := 0, rs_got := 0, rs_inbox := rest\<rparr>,
                        Process (bytes_at pack 0 (nat got)) # es,
                        (case flt of None \<Rightarrow> Next_proceed | Some f \<Rightarrow> Next_fault f)))
              else (rs\<lparr>rs_ctx := c1, rs_expect := expect, rs_got := got, rs_inbox := rest\<rparr>,
                    [], Next_proceed)))"

text \<open>Lines 533-550: the two bytes of the length are awaited (\<open>expect == 0\<close>):
  \<^verbatim>\<open>expect = buffer[0] << 8 | buffer[1]\<close>.\<close>

definition read_length :: "wakeup \<Rightarrow> run_state \<Rightarrow> run_state \<times> effect list \<times> step_next" where
  "read_length w rs =
     (case recv (wk_sock w) (rs_inbox rs) (nat (2 - rs_got rs)) of
        (Recv_wouldblock, rest) \<Rightarrow> (rs, [], Next_continue)
      | (Recv_zero, rest) \<Rightarrow> (rs, [], Next_return)
      | (Recv_error, rest) \<Rightarrow> (rs, [], Next_return)
      | (Recv_bytes bs, rest) \<Rightarrow>
          (let c1 = write_pkt (nat (rs_got rs)) bs (rs_ctx rs);
               got = rs_got rs + int (length bs)
           in if got = 2
              then (let expect = (of_char (slim_run_buffer (slim_run c1) 0) :: int) * 256 +
                                 of_char (slim_run_buffer (slim_run c1) 1);
                        rs1 = rs\<lparr>rs_ctx := c1, rs_expect := expect, rs_got := 0, rs_inbox := rest\<rparr>
                    in (rs1, [], if expect > MAXBUF then Next_return else Next_proceed))
              else (rs\<lparr>rs_ctx := c1, rs_got := got, rs_inbox := rest\<rparr>, [], Next_proceed)))"

text \<open>Lines 516-556: \<open>EVENT_READ\<close>.\<close>

definition run_read :: "platform \<Rightarrow> wakeup \<Rightarrow> run_state \<Rightarrow> run_state \<times> effect list \<times> step_next" where
  "run_read K w rs =
     (if rs_expect rs > 0 then read_body K w rs
      else if rs_expect rs = 0 then read_length w rs
      else (rs, [], Next_return))"

text \<open>Lines 562-569: an idle CLI socket is closed.\<close>

definition close_idle_cli :: "wakeup \<Rightarrow> ctx \<Rightarrow> ctx \<times> effect list" where
  "close_idle_cli w c =
     (if cli_sock c > 0 \<and> (cli_timestamp c + 10000) - wk_cli_now w > 10000 \<and> wk_cli_trylock w
      then (c\<lparr>cli_sock := - 1\<rparr>, [Close_cli_socket])
      else (c, []))"

text \<open>Lines 583-591: the ICY metadata is refreshed.\<close>

definition refresh_icy :: "platform \<Rightarrow> u32 \<Rightarrow> ctx \<Rightarrow> ctx \<times> effect list" where
  "refresh_icy K now c =
     (if output_state (out_of c) = OUTPUT_RUNNING \<and> config_send_icy (config c) \<and>
         icy_interval (output_icy (out_of c)) \<noteq> 0 \<and>
         (icy_last (output_icy (out_of c)) + ICY_UPDATE_TIME K) - now > ICY_UPDATE_TIME K
      then (let (c1, es1) = output_set_icy K (x_sq_get_metadata K 0) False c
            in (c1, Sq_get_metadata 0 # es1))
      else (c, []))"

text \<open>Lines 580-757: the playback state is updated when woken or every 100 ms.\<close>

definition run_update :: "platform \<Rightarrow> u32 \<Rightarrow> bool \<Rightarrow> ctx \<Rightarrow> ctx \<times> effect list" where
  "run_update K now wake c =
     (let (c1, es1) = refresh_icy K now c
      in if wake \<or> now - slim_run_last (slim_run c1) > 100 \<or> slim_run_last (slim_run c1) > now
         then (let (c2, es2) = status_ticker K now c1 in (c2, es1 @ es2))
         else (c1, es1))"

text \<open>One pass of \<^verbatim>\<open>while (ctx->running && !ctx->new_server)\<close>, lines 511-758.\<close>

definition run_body :: "platform \<Rightarrow> wakeup \<Rightarrow> run_state \<Rightarrow> run_state \<times> effect list \<times> step_next" where
  "run_body K w rs =
     (let c0 = ext (wk_threads w) ((rs_ctx rs)\<lparr>running := (running (rs_ctx rs) \<and> \<not> wk_stop w)\<rparr>);
          rs0 = rs\<lparr>rs_ctx := c0, rs_inbox := rs_inbox rs @ wk_arrived w\<rparr>
      in if wk_event w \<noteq> EVENT_TIMEOUT
         then (let (rs1, es1, nx) = (if wk_event w = EVENT_READ then run_read K w rs0
                                     else (rs0, [], Next_proceed))
               in if nx \<noteq> Next_proceed then (rs1, es1, nx)
                  else (let (c2, es2) = close_idle_cli w (rs_ctx rs1);
                            (c3, es3) = run_update K (wk_now w) (wk_event w = EVENT_WAKE) c2
                        in (rs1\<lparr>rs_ctx := c3, rs_timeouts := 0\<rparr>, es1 @ es2 @ es3, Next_proceed)))
         else if rs_timeouts rs0 + 1 > 35
         then (rs0\<lparr>rs_timeouts := rs_timeouts rs0 + 1\<rparr>, [], Next_return)
         else (let (c3, es3) = run_update K (wk_now w) False (rs_ctx rs0)
               in (rs0\<lparr>rs_ctx := c3, rs_timeouts := rs_timeouts rs0 + 1\<rparr>, es3, Next_proceed)))"

text \<open>\<^verbatim>\<open>static void slimproto_run(struct thread_ctx_s *ctx)\<close>: the loop runs as long as the
  environment keeps it going, so it is driven by the list of what its passes meet; \<open>Waiting\<close>
  is the loop blocked with the list used up.\<close>

fun run_loop :: "platform \<Rightarrow> wakeup list \<Rightarrow> run_state \<Rightarrow> run_state \<times> effect list \<times> run_exit" where
  "run_loop K [] rs =
     (if running (rs_ctx rs) \<and> raw_zero (new_server (rs_ctx rs)) then (rs, [], Waiting)
      else (rs, [], Returned))"
| "run_loop K (w # ws) rs =
     (if running (rs_ctx rs) \<and> raw_zero (new_server (rs_ctx rs))
      then (case run_body K w rs of
              (rs1, es1, Next_return) \<Rightarrow> (rs1, es1, Returned)
            | (rs1, es1, Next_fault f) \<Rightarrow> (rs1, es1, Faulted f)
            | (rs1, es1, Next_continue) \<Rightarrow>
                (let (rs2, es2, x) = run_loop K ws rs1 in (rs2, es1 @ es2, x))
            | (rs1, es1, Next_proceed) \<Rightarrow>
                (let (rs2, es2, x) = run_loop K ws rs1 in (rs2, es1 @ es2, x)))
      else (rs, [], Returned))"

definition slimproto_run :: "platform \<Rightarrow> wakeup list \<Rightarrow> ctx \<Rightarrow> ctx \<times> effect list \<times> run_exit" where
  "slimproto_run K ws c =
     (let (rs, es, x) = run_loop K ws
                          \<lparr>rs_ctx = c, rs_expect = 0, rs_got = 0, rs_timeouts = 0, rs_inbox = []\<rparr>
      in (rs_ctx rs, es, x))"

subsection \<open>slimproto: the connection manager\<close>

text \<open>\<open>discover_server\<close> returns once a server has answered (or the player is shut down); of
  what it stores, the functions modelled here read \<open>slimproto_ip\<close>.  The parsing of the reply
  is not modelled: the address of the responder is given.\<close>

definition discover_server :: "bytes \<Rightarrow> ctx \<Rightarrow> ctx" where
  "discover_server responder c = c\<lparr>slimproto_ip := responder\<rparr>"

text \<open>What one pass of \<^verbatim>\<open>while (ctx->running)\<close> in \<open>slimproto\<close> meets: the server that answers a
  discovery, whether the connection is made, what the session then meets, and whether the
  player is shut down by the end of the pass.\<close>

record attempt =
  at_responder :: bytes
  at_connect_ok :: bool
  at_session :: "wakeup list"
  at_stop :: bool

record manager =
  mg_ctx :: ctx
  mg_reconnect :: bool
  mg_failed_connect :: nat

text \<open>Lines 852-859: a server switch asked for by \<open>serv\<close>.\<close>

definition switch_server :: "attempt \<Rightarrow> manager \<Rightarrow> manager" where
  "switch_server a m =
     (if \<not> raw_zero (new_server (mg_ctx m))
      then m\<lparr>mg_ctx := discover_server (at_responder a)
                          ((mg_ctx m)\<lparr>slimproto_ip := new_server (mg_ctx m), new_server := zero32\<rparr>),
              mg_reconnect := False\<rparr>
      else m)"

text \<open>Lines 879-891: connected; the capabilities for HELO.\<close>

definition hello :: "manager \<Rightarrow> manager \<times> effect list" where
  "hello m =
     (let c = mg_ctx m;
          c1 = c\<lparr>var_cap := []\<rparr>;
          c2 = (case new_server_cap c1 of
                  Some cap \<Rightarrow> c1\<lparr>var_cap := var_cap c1 @ cap, new_server_cap := None\<rparr>
                | None \<Rightarrow> c1)
      in (m\<lparr>mg_ctx := c2, mg_failed_connect := 0\<rparr>,
          [SendHELO (mg_reconnect m) (fixed_cap c2) (var_cap c2) (mac c2)]))"

text \<open>Lines 902-907: the end of every pass.\<close>

definition cleanup :: "attempt \<Rightarrow> manager \<Rightarrow> manager" where
  "cleanup a m =
     m\<lparr>mg_ctx := (mg_ctx m)\<lparr>new_server_cap := None,
                              running := (running (mg_ctx m) \<and> \<not> at_stop a)\<rparr>\<rparr>"

text \<open>Lines 852-908: one pass of the loop.\<close>

definition slimproto_pass :: "platform \<Rightarrow> attempt \<Rightarrow> manager \<Rightarrow> manager \<times> effect list \<times> run_exit" where
  "slimproto_pass K a m =
     (let m1 = switch_server a m;
          m2 = m1\<lparr>mg_ctx := (mg_ctx m1)\<lparr>cli_sock := - 1\<rparr>\<rparr>
      in if \<not> at_connect_ok a
         then (let m3 = (if config_server (config (mg_ctx m2)) = ''?''
                         then (if mg_failed_connect m2 + 1 > 5
                               then m2\<lparr>mg_failed_connect := mg_failed_connect m2 + 1,
                                       mg_ctx := discover_server (at_responder a)
                                                   ((mg_ctx m2)\<lparr>slimproto_ip := zero32\<rparr>)\<rparr>
                               else m2\<lparr>mg_failed_connect := mg_failed_connect m2 + 1\<rparr>)
                         else m2)
               in (cleanup a m3, [], Returned))
         else (let (m3, es3) = hello m2;
                   (c4, es4, x) = slimproto_run K (at_session a) (mg_ctx m3);
                   m4 = m3\<lparr>mg_ctx := c4, mg_reconnect := True\<rparr>
               in if x = Returned then (cleanup a m4, es3 @ es4, Returned)
                  else (m4, es3 @ es4, x)))"

fun slimproto_loop :: "platform \<Rightarrow> attempt list \<Rightarrow> manager \<Rightarrow> manager \<times> effect list \<times> run_exit" where
  "slimproto_loop K [] m = (m, [], if running (mg_ctx m) then Waiting else Returned)"
| "slimproto_loop K (a # as) m =
     (if running (mg_ctx m)
      then (case slimproto_pass K a m of
              (m1, es1, Returned) \<Rightarrow>
                (let (m2, es2, x) = slimproto_loop K as m1 in (m2, es1 @ es2, x))
            | (m1, es1, x) \<Rightarrow> (m1, es1, x))
      else (m, [], Returned))"

text \<open>\<^verbatim>\<open>static void slimproto(struct thread_ctx_s *ctx)\<close>\<close>

definition slimproto :: "platform \<Rightarrow> bytes \<Rightarrow> attempt list \<Rightarrow> ctx \<Rightarrow> manager \<times> effect list \<times> run_exit" where
  "slimproto K responder as c =
     slimproto_loop K as
       \<lparr>mg_ctx = discover_server responder c, mg_reconnect = False, mg_failed_connect = 0\<rparr>"

subsection \<open>Reading the effects\<close>

text \<open>The name of the packet that an effect puts on the wire: the opcode, and for STAT the
  four letters of its event.\<close>

fun wire_tag :: "effect \<Rightarrow> string option" where
  "wire_tag (SendHELO r f v m) = Some ''HELO''"
| "wire_tag (SendSTAT ev ts) = Some ev"
| "wire_tag (SendDSCO d) = Some ''DSCO''"
| "wire_tag (SendRESP h) = Some ''RESP''"
| "wire_tag (SendMETA h) = Some ''META''"
| "wire_tag (SendSETDName n) = Some ''SETD''"
| "wire_tag e = None"

definition wire :: "effect list \<Rightarrow> string list" where
  "wire es = List.map_filter wire_tag es"

definition send_order :: "string list" where
  "send_order =
     [''DSCO'', ''STMs'', ''STMt'', ''STMl'', ''STMd'', ''STMu'', ''STMo'', ''STMn'', ''RESP'', ''META'']"

text \<open>No mutex is held at any send: \<open>held\<close> is the list of the mutexes taken and not released
  so far.\<close>

fun sends_unlocked :: "mutex_id list \<Rightarrow> effect list \<Rightarrow> bool" where
  "sends_unlocked held [] = True"
| "sends_unlocked held (LOCK m # es) = sends_unlocked (m # held) es"
| "sends_unlocked held (UNLOCK m # es) = sends_unlocked (remove1 m held) es"
| "sends_unlocked held (e # es) = ((wire_tag e = None \<or> held = []) \<and> sends_unlocked held es)"

text \<open>The callbacks of one action among the effects.\<close>

fun is_callback :: "sq_action_t \<Rightarrow> effect \<Rightarrow> bool" where
  "is_callback a (Callback b p) = (a = b)"
| "is_callback a e = False"

definition callbacks :: "sq_action_t \<Rightarrow> effect list \<Rightarrow> nat" where
  "callbacks a es = length (filter (is_callback a) es)"

fun is_stream_sock :: "effect \<Rightarrow> bool" where
  "is_stream_sock (Stream_sock ip port h hl th cw) = True"
| "is_stream_sock e = False"

text \<open>The order of the status messages of a track.  \<open>armed\<close> says that an STMs, or the
  warning of the nothing-received path, has been seen since the last STMc (which \<open>strm s\<close>
  sends right before it resets the latches); STMd, STMu and STMo are in order when they come
  armed.\<close>

fun track_ok :: "bool \<Rightarrow> effect list \<Rightarrow> bool" where
  "track_ok armed [] = True"
| "track_ok armed (SendSTAT ev ts # es) =
     (if ev = ''STMs'' then track_ok True es
      else if ev = ''STMc'' then track_ok False es
      else if ev = ''STMd'' \<or> ev = ''STMu'' \<or> ev = ''STMo'' then armed \<and> track_ok armed es
      else track_ok armed es)"
| "track_ok armed (Log_nothing_received # es) = track_ok True es"
| "track_ok armed (e # es) = track_ok armed es"

text \<open>The order as the spec words it: STMd, STMu and STMo come after an STMs sent since the
  last \<open>strm s\<close> that connected a stream (it replies STMc).\<close>

fun stms_first :: "bool \<Rightarrow> effect list \<Rightarrow> bool" where
  "stms_first started [] = True"
| "stms_first started (SendSTAT ev ts # es) =
     (if ev = ''STMs'' then stms_first True es
      else if ev = ''STMc'' then stms_first False es
      else if ev = ''STMd'' \<or> ev = ''STMu'' \<or> ev = ''STMo'' then started \<and> stms_first started es
      else stms_first started es)"
| "stms_first started (e # es) = stms_first started es"

text \<open>A function on the shared part that does not raise \<open>output.track_started\<close>.\<close>

definition quiet :: "(shared \<Rightarrow> shared) \<Rightarrow> bool" where
  "quiet f = (\<forall>s. output_track_started (sh_output (f s)) \<longrightarrow> output_track_started (sh_output s))"

definition quiet_platform :: "platform \<Rightarrow> bool" where
  "quiet_platform K =
     (quiet (x_decode_flush K) \<and> quiet (x_output_flush K) \<and> quiet (\<lambda>s. snd (x_stream_disconnect K s)) \<and>
      quiet (x_buf_flush K) \<and> (\<forall>a b c d e f. quiet (x_stream_sock K a b c d e f)) \<and>
      (\<forall>a b c d e. quiet (\<lambda>s. snd (x_codec_open K a b c d e s))) \<and>
      quiet (\<lambda>s. snd (x_output_start K s)) \<and> (\<forall>a b. quiet (x_output_set_icy K a b)) \<and>
      (\<forall>a. quiet (x_buf_resize K a)) \<and> quiet (\<lambda>s. snd (x_buf_reset K s)))"

subsection \<open>Framing as the spec words it\<close>

text \<open>Section 4.4 of the spec: a two-byte big-endian length, then that many bytes, one frame;
  a length over 4096 is fatal.  \<open>frames n s\<close> are the frames that \<open>n\<close> more bytes complete
  when \<open>s\<close> follows; a length of 0 completes no frame.\<close>

definition frame_length :: "char \<Rightarrow> char \<Rightarrow> nat" where
  "frame_length hi lo = of_char hi * 256 + of_char lo"

function frames_of :: "bytes \<Rightarrow> bytes list" where
  "frames_of s =
     (case s of
        hi # lo # rest \<Rightarrow>
          (let n = frame_length hi lo
           in if n > 4096 \<or> length rest < n then []
              else (if n = 0 then [] else [take n rest]) @ frames_of (drop n rest))
      | _ \<Rightarrow> [])"
  by pat_completeness auto
termination
  by (relation "measure length") auto

subsection \<open>A concrete player\<close>

text \<open>The inputs of the closed theorems below: a platform whose decoder knows pcm only, and
  a player at rest with a bridge callback registered.\<close>

definition demo_rank :: "stream_state_t \<Rightarrow> nat" where
  "demo_rank s =
     (case s of STOPPED \<Rightarrow> 0 | DISCONNECT \<Rightarrow> 1 | STREAMING_WAIT \<Rightarrow> 2 | STREAMING_BUFFERING \<Rightarrow> 3
      | STREAMING_FILE \<Rightarrow> 4 | STREAMING_HTTP \<Rightarrow> 5 | SEND_HEADERS \<Rightarrow> 6 | RECV_HEADERS \<Rightarrow> 7)"

definition demo_metadata :: metadata_s where
  "demo_metadata =
     \<lparr>md_duration = 300000, md_bitrate = 0, md_remote = False, md_sample_size = 16,
      md_sample_rate = 44100\<rparr>"

definition demo_platform :: platform where
  "demo_platform =
     \<lparr>MAX_HEADER = 4096, STREAM_DELAY = 30000, ICY_UPDATE_TIME = 5000, STR_LEN = 256,
      SL_LITTLE_ENDIAN = True, stream_rank = demo_rank,
      x_decode_flush = (\<lambda>s. s), x_output_flush = (\<lambda>s. s),
      x_stream_disconnect = (\<lambda>s. (False, s)), x_buf_flush = (\<lambda>s. s),
      x_stream_sock = (\<lambda>ip port header header_len threshold cont_wait s. s),
      x_codec_open = (\<lambda>codec ssize srate ch en s. (codec = CHR ''p'', s)),
      x_output_start = (\<lambda>s. (True, s)), x_output_set_icy = (\<lambda>md force s. s),
      x_buf_resize = (\<lambda>n s. s), x_buf_reset = (\<lambda>s. (True, s)),
      x_buf_used = (\<lambda>b. of_nat (length (buf_data b))),
      x_sq_get_metadata = (\<lambda>offset. demo_metadata), x_sq_default_metadata = demo_metadata,
      x_find_mimetype = (\<lambda>codec mts fmt. None),
      x_find_pcm_mimetype = (\<lambda>ssize l24 srate ch mts raw. (Some ''audio/L16'', ssize)),
      x_mimetype2format = (\<lambda>m. CHR ''w''), x_mimetype2ext = (\<lambda>m. ''wav'')\<rparr>"

definition demo_output :: outputstate where
  "demo_output =
     \<lparr>output_state = OUTPUT_STOPPED, output_start_at = 0, output_track_started = False,
      output_completed = False, output_next_replay_gain = 0, output_fade_mode = 0,
      output_fade_secs = 0, output_icy = \<lparr>icy_interval = 0, icy_last = 0\<rparr>,
      output_encode = \<lparr>encode_mode = ENCODE_THRU, encode_flow = False, encode_sample_rate = 0,
                       encode_sample_size = 0, encode_channels = 0, encode_level = 0\<rparr>,
      output_index = 0, output_duration = 0, output_bitrate = 0, output_remote = False,
      output_sample_size = 0, output_sample_rate = 0, output_channels = 0, output_in_endian = 0,
      output_codec = CHR ''p'', output_supported_rate0 = 0, output_offset = 0,
      output_mimetype = [], output_format = CHR ''w'', output_out_endian = False,
      output_length = 0, output_port = 0\<rparr>"

definition demo_ctx :: ctx where
  "demo_ctx =
     \<lparr>stream = \<lparr>stream_state = STOPPED, stream_bytes = 0, stream_disconnect_code = DISCONNECT_OK,
                stream_sent_headers = False, stream_header = [], stream_header_len = 0,
                stream_meta_send = False, stream_meta_interval = 0, stream_meta_next = 0\<rparr>,
      decode = \<lparr>decode_state = DECODE_STOPPED\<rparr>,
      output' = demo_output,
      render = \<lparr>render_state = RD_STOPPED, render_duration = 0, render_ms_played = 0,
                render_index = - 1\<rparr>,
      streambuf = \<lparr>buf_size = 1048576, buf_data = []\<rparr>,
      outputbuf = \<lparr>buf_size = 1048576, buf_data = []\<rparr>,
      status = \<lparr>status_stream_full = 0, status_stream_size = 0, status_stream_bytes = 0,
                status_stream_state = STOPPED, status_output_full = 0, status_output_size = 0,
                status_sample_rate = 0, status_output_ready = False, status_duration = 0,
                status_ms_played = 0, status_last = 0\<rparr>,
      config = \<lparr>config_name = ''player'', config_server = ''?'', config_mode = ''thru'',
                config_sample_rate = 192000, config_send_icy = False,
                config_L24_format = L24_PACKED, config_raw_audio_format = ''raw,wav,aif'',
                config_outputbuf_size = 1048576, config_stream_length = 0\<rparr>,
      slim_run = \<lparr>slim_run_buffer = (\<lambda>i. CHR 0x00), slim_run_last = 0, slim_run_header = []\<rparr>,
      last_command = CHR 0x00, autostart = 0,
      canSTMdu = False, sentSTMu = False, sentSTMo = False, sentSTMl = False, sentSTMd = False,
      slimproto_ip = [CHR 0xC0, CHR 0xA8, CHR 0x01, CHR 0x0A], new_server = zero32,
      new_server_cap = None, var_cap = [], fixed_cap = '',MaxSampleRate=192000,pcm'',
      mac = [CHR 0x00, CHR 0x01, CHR 0x02, CHR 0x03, CHR 0x04, CHR 0x05],
      running = True, cli_sock = - 1, cli_timestamp = 0, ctx_on = True,
      callback = Some (\<lambda>action param. True), mimetypes = [''audio/L16'']\<rparr>"

text \<open>A received frame as the handlers see it: the bytes at the start of the buffer.\<close>

definition pkt_of :: "bytes \<Rightarrow> nat \<Rightarrow> char" where
  "pkt_of bs = (\<lambda>i. if i < length bs then bs ! i else CHR 0x00)"

text \<open>A \<open>strm\<close> frame without a request header: the command, the autostart digit and the
  format byte; sample size, rate, channels and endianness as in pcm 16 bit, 44100 Hz, stereo;
  threshold 255; replay gain, server port and server address as given.\<close>

definition strm_frame :: "char \<Rightarrow> char \<Rightarrow> char \<Rightarrow> bytes \<Rightarrow> bytes \<Rightarrow> bytes \<Rightarrow> bytes" where
  "strm_frame cmd auto fmt gain port ip =
     ''strm'' @ [cmd, auto, fmt, CHR ''1'', CHR ''3'', CHR ''2'', CHR ''1'', CHR 0xFF, CHR ''0'',
                 CHR 0x00, CHR ''0'', CHR 0x00, CHR 0x00, CHR 0x00] @ gain @ port @ ip"

definition port9000 :: bytes where
  "port9000 = [CHR 0x23, CHR 0x28]"

subsection \<open>What the negotiator leaves alone\<close>

text \<open>The protocol bookkeeping of the controller, and with it the registered callback.\<close>

definition bookkeeping :: "ctx \<Rightarrow> char \<times> u8 \<times> bool \<times> bool \<times> bool \<times> bool \<times> bool" where
  "bookkeeping c =
     (last_command c, autostart c, canSTMdu c, sentSTMu c, sentSTMo c, sentSTMl c, sentSTMd c)"

definition kept ::
  "ctx \<Rightarrow> (char \<times> u8 \<times> bool \<times> bool \<times> bool \<times> bool \<times> bool) \<times>
          (sq_action_t \<Rightarrow> cb_param \<Rightarrow> bool) option" where
  "kept c = (bookkeeping c, callback c)"

text \<open>The calls that \<open>process_start\<close> makes.\<close>

fun negotiation_effect :: "effect \<Rightarrow> bool" where
  "negotiation_effect (LOCK m) = (m = MUTEX_O)"
| "negotiation_effect (UNLOCK m) = (m = MUTEX_O)"
| "negotiation_effect (Buf_resize n) = True"
| "negotiation_effect Buf_reset = True"
| "negotiation_effect (Sq_get_metadata n) = True"
| "negotiation_effect (Output_set_icy f) = True"
| "negotiation_effect (Codec_open c a b d e) = True"
| "negotiation_effect Output_start = True"
| "negotiation_effect (Callback a p) = (a = SQ_SET_TRACK)"
| "negotiation_effect e = False"

subsection \<open>Reading the effects, continued\<close>

text \<open>The mutexes held after a list of effects.\<close>

fun held_after :: "mutex_id list \<Rightarrow> effect list \<Rightarrow> mutex_id list" where
  "held_after held [] = held"
| "held_after held (LOCK m # es) = held_after (m # held) es"
| "held_after held (UNLOCK m # es) = held_after (remove1 m held) es"
| "held_after held (e # es) = held_after held es"

text \<open>Whether the track is armed (see \<open>track_ok\<close>) after a list of effects.\<close>

fun armed_after :: "bool \<Rightarrow> effect list \<Rightarrow> bool" where
  "armed_after armed [] = armed"
| "armed_after armed (SendSTAT ev ts # es) =
     (if ev = ''STMs'' then armed_after True es
      else if ev = ''STMc'' then armed_after False es
      else armed_after armed es)"
| "armed_after armed (Log_nothing_received # es) = armed_after True es"
| "armed_after armed (e # es) = armed_after armed es"

text \<open>An effect that is neither a packet nor the warning of the nothing-received path.\<close>

definition silent :: "effect \<Rightarrow> bool" where
  "silent e = (wire_tag e = None \<and> e \<noteq> Log_nothing_received)"

text \<open>The number of STMs among the effects.\<close>

definition count_stms :: "effect list \<Rightarrow> nat" where
  "count_stms es = count_list (wire es) ''STMs''"

subsection \<open>Concrete states for the status ticker\<close>

text \<open>The player after a local track has been decoded to its end and the output has taken it
  all, with the gate \<open>canSTMdu\<close> open.\<close>

definition demo_complete :: ctx where
  "demo_complete =
     (upd_output (\<lambda>u. u\<lparr>output_completed := True\<rparr>) demo_ctx)
       \<lparr>decode := (decode demo_ctx)\<lparr>decode_state := DECODE_COMPLETE\<rparr>, canSTMdu := True\<rparr>"

text \<open>The same for a remote source, 10 s into a track of 300 s.\<close>

definition demo_remote :: ctx where
  "demo_remote =
     (upd_output (\<lambda>u. u\<lparr>output_remote := True\<rparr>) demo_complete)
       \<lparr>render := (render demo_complete)\<lparr>render_duration := 300000, render_ms_played := 10000\<rparr>\<rparr>"

text \<open>The player while a track plays, at the moment the stream has disconnected with ICY
  metadata pending and the output has just started the track.\<close>

definition demo_busy :: ctx where
  "demo_busy =
     (upd_output (\<lambda>u. u\<lparr>output_track_started := True\<rparr>) demo_ctx)
       \<lparr>stream := (stream demo_ctx)\<lparr>stream_state := DISCONNECT, stream_meta_send := True\<rparr>,
        decode := (decode demo_ctx)\<lparr>decode_state := DECODE_RUNNING\<rparr>\<rparr>"

section \<open>Properties\<close>

subsection \<open>The collaborators keep to the shared part\<close>

lemma ext_private [simp]:
  "status (ext f c) = status c" "config (ext f c) = config c" "slim_run (ext f c) = slim_run c"
  "last_command (ext f c) = last_command c" "autostart (ext f c) = autostart c"
  "canSTMdu (ext f c) = canSTMdu c" "sentSTMu (ext f c) = sentSTMu c"
  "sentSTMo (ext f c) = sentSTMo c" "sentSTMl (ext f c) = sentSTMl c"
  "sentSTMd (ext f c) = sentSTMd c" "slimproto_ip (ext f c) = slimproto_ip c"
  "new_server (ext f c) = new_server c" "new_server_cap (ext f c) = new_server_cap c"
  "var_cap (ext f c) = var_cap c" "fixed_cap (ext f c) = fixed_cap c" "mac (ext f c) = mac c"
  "running (ext f c) = running c" "cli_sock (ext f c) = cli_sock c"
  "cli_timestamp (ext f c) = cli_timestamp c" "ctx_on (ext f c) = ctx_on c"
  "callback (ext f c) = callback c" "mimetypes (ext f c) = mimetypes c"
  by (simp_all add: ext_def put_shared_def)

lemma ext_r_private [simp]:
  "status (snd (ext_r g c)) = status c" "config (snd (ext_r g c)) = config c"
  "slim_run (snd (ext_r g c)) = slim_run c"
  "last_command (snd (ext_r g c)) = last_command c" "autostart (snd (ext_r g c)) = autostart c"
  "canSTMdu (snd (ext_r g c)) = canSTMdu c" "sentSTMu (snd (ext_r g c)) = sentSTMu c"
  "sentSTMo (snd (ext_r g c)) = sentSTMo c" "sentSTMl (snd (ext_r g c)) = sentSTMl c"
  "sentSTMd (snd (ext_r g c)) = sentSTMd c" "slimproto_ip (snd (ext_r g c)) = slimproto_ip c"
  "new_server (snd (ext_r g c)) = new_server c"
  "new_server_cap (snd (ext_r g c)) = new_server_cap c"
  "var_cap (snd (ext_r g c)) = var_cap c" "fixed_cap (snd (ext_r g c)) = fixed_cap c"
  "mac (snd (ext_r g c)) = mac c"
  "running (snd (ext_r g c)) = running c" "cli_sock (snd (ext_r g c)) = cli_sock c"
  "cli_timestamp (snd (ext_r g c)) = cli_timestamp c" "ctx_on (snd (ext_r g c)) = ctx_on c"
  "callback (snd (ext_r g c)) = callback c" "mimetypes (snd (ext_r g c)) = mimetypes c"
  by (simp_all add: ext_r_def put_shared_def)

lemma get_shared_ext [simp]: "get_shared (ext f c) = f (get_shared c)"
  by (simp add: ext_def get_shared_def put_shared_def)

lemma get_shared_ext_r [simp]: "get_shared (snd (ext_r g c)) = snd (g (get_shared c))"
  by (simp add: ext_r_def get_shared_def put_shared_def)

lemma fst_ext_r [simp]: "fst (ext_r g c) = fst (g (get_shared c))"
  by (simp add: ext_r_def)

lemma kept_ext [simp]: "kept (ext f c) = kept c"
  by (simp add: kept_def bookkeeping_def)

lemma kept_ext_r [simp]: "kept (snd (ext_r g c)) = kept c"
  by (simp add: kept_def bookkeeping_def)

lemma kept_upd_output [simp]: "kept (upd_output f c) = kept c"
  by (simp add: kept_def bookkeeping_def upd_output_def)

lemma kept_upd_encode [simp]: "kept (upd_encode f c) = kept c"
  by (simp add: upd_encode_def)

lemma kept_config [simp]: "kept (c\<lparr>config := x\<rparr>) = kept c"
  by (simp add: kept_def bookkeeping_def)

lemma kept_if: "kept (if b then x else y) = (if b then kept x else kept y)"
  by simp

lemma fst_if: "fst (if b then x else y) = (if b then fst x else fst y)"
  by simp

lemma snd_if: "snd (if b then x else y) = (if b then snd x else snd y)"
  by simp

lemma bookkeeping_last_command:
  "bookkeeping (c\<lparr>last_command := v\<rparr>) = (v, snd (bookkeeping c))"
  by (simp add: bookkeeping_def)

lemma kept_autostart: "kept c1 = kept c \<Longrightarrow> autostart c1 = autostart c"
  by (simp add: kept_def bookkeeping_def)

lemma kept_bookkeeping: "kept c1 = kept c \<Longrightarrow> bookkeeping c1 = bookkeeping c"
  by (simp add: kept_def)

subsection \<open>process_start keeps the bookkeeping and sends nothing\<close>

lemma ps_begin_kept [simp]: "kept (fst (ps_begin K c)) = kept c"
  by (simp add: ps_begin_def Let_def)

lemma ps_begin_effects [simp]: "list_all negotiation_effect (snd (snd (ps_begin K c)))"
  by (simp add: ps_begin_def Let_def)

lemma ps_source_kept: "ps_source f r s ch e c = Inr c1 \<Longrightarrow> kept c1 = kept c"
  by (auto simp add: ps_source_def split: sum.splits)

lemma codec_open_kept [simp]: "kept (fst (snd (codec_open K c))) = kept c"
  by (simp add: codec_open_def Let_def split_beta)

lemma codec_open_effects [simp]: "list_all negotiation_effect (snd (snd (codec_open K c)))"
  by (simp add: codec_open_def Let_def split_beta)

lemma output_set_icy_kept [simp]: "kept (fst (output_set_icy K md b c)) = kept c"
  by (simp add: output_set_icy_def)

lemma output_set_icy_effects [simp]: "list_all negotiation_effect (snd (output_set_icy K md b c))"
  by (simp add: output_set_icy_def)

lemma ps_setup_kept [simp]: "kept (fst (ps_setup K md c)) = kept c"
  by (simp add: ps_setup_def Let_def split_beta kept_if fst_if snd_if)

lemma ps_setup_effects [simp]: "list_all negotiation_effect (snd (snd (ps_setup K md c)))"
  by (simp add: ps_setup_def Let_def split_beta fst_if snd_if)

lemma ps_mime_thru_kept [simp]: "kept (fst (snd (ps_mime_thru K c))) = kept c"
  by (simp add: ps_mime_thru_def Let_def split_beta kept_if fst_if snd_if)

lemma ps_mime_thru_effects [simp]: "list_all negotiation_effect (snd (snd (ps_mime_thru K c)))"
  by (simp add: ps_mime_thru_def Let_def split_beta fst_if snd_if)

lemma ps_mime_pcm_kept [simp]: "kept (snd (ps_mime_pcm K md c)) = kept c"
  by (simp add: ps_mime_pcm_def Let_def split_beta kept_if fst_if snd_if option.case_eq_if)

lemma ps_mime_flac_kept [simp]: "kept (snd (ps_mime_flac K c)) = kept c"
  by (simp add: ps_mime_flac_def Let_def split_beta kept_if fst_if snd_if)

lemma ps_mime_mp3_kept [simp]: "kept (snd (ps_mime_mp3 K c)) = kept c"
  by (simp add: ps_mime_mp3_def Let_def split_beta kept_if fst_if snd_if option.case_eq_if)

lemma ps_mimetype_kept [simp]: "kept (fst (snd (ps_mimetype K md c))) = kept c"
  by (simp add: ps_mimetype_def Let_def split_beta kept_if fst_if snd_if)

lemma ps_mimetype_effects [simp]: "list_all negotiation_effect (snd (snd (ps_mimetype K md c)))"
  by (simp add: ps_mimetype_def Let_def split_beta fst_if snd_if)

lemma ctx_callback_effects [simp]:
  "list_all negotiation_effect (snd (ctx_callback c SQ_SET_TRACK p))"
  by (simp add: ctx_callback_def split: option.splits)

lemma ps_open_kept [simp]: "kept (fst (snd (ps_open K md off mt c))) = kept c"
  by (cases mt) (simp_all add: ps_open_def Let_def split_beta kept_if fst_if snd_if)

lemma ps_open_effects [simp]: "list_all negotiation_effect (snd (snd (ps_open K md off mt c)))"
  by (cases mt) (simp_all add: ps_open_def Let_def split_beta fst_if snd_if)

lemma process_start_kept [simp]: "kept (fst (snd (process_start K f r s ch e c))) = kept c"
proof (cases "ps_source f r s ch e
    (upd_output (\<lambda>u. u\<lparr>output_completed := False,
         output_duration := md_duration (x_sq_get_metadata K (fst (snd (ps_begin K c)))),
         output_bitrate := md_bitrate (x_sq_get_metadata K (fst (snd (ps_begin K c)))),
         output_remote := md_remote (x_sq_get_metadata K (fst (snd (ps_begin K c))))\<rparr>)
       (fst (ps_begin K c)))")
  case (Inl a)
  then show ?thesis
    by (simp add: process_start_def Let_def split_beta)
next
  case (Inr c3)
  then have "kept c3 = kept c"
    by (auto dest: ps_source_kept)
  with Inr show ?thesis
    by (simp add: process_start_def Let_def split_beta kept_if fst_if snd_if sum.case_eq_if)
qed

lemma process_start_effects [simp]:
  "list_all negotiation_effect (snd (snd (process_start K f r s ch e c)))"
  by (simp add: process_start_def Let_def split_beta fst_if snd_if sum.case_eq_if)

lemma negotiation_no_stream_sock:
  "list_all negotiation_effect es \<Longrightarrow> Stream_sock a b c d e f \<notin> set es"
  by (auto simp add: list_all_iff)

lemma wire_Nil [simp]: "wire [] = []"
  by (simp add: wire_def)

lemma wire_Cons: "wire (e # es) = (case wire_tag e of None \<Rightarrow> wire es | Some t \<Rightarrow> t # wire es)"
  by (cases "wire_tag e") (simp_all add: wire_def)

lemma wire_append [simp]: "wire (xs @ ys) = wire xs @ wire ys"
  by (simp add: wire_def List.map_filter_def)

lemma negotiation_wire: "list_all negotiation_effect es \<Longrightarrow> wire es = []"
proof (induction es)
  case Nil
  then show ?case by simp
next
  case (Cons e es)
  then show ?case by (cases e) (simp_all add: wire_Cons)
qed

lemma strm_s_connect_effects:
  "snd (strm_s_connect K pkt len strm ip b c) =
     [Stream_sock ip (strm_server_port strm)
        (bytes_at pkt sizeof_strm_packet (unat (word_of_int (len - int sizeof_strm_packet) :: u32)))
        (word_of_int (len - int sizeof_strm_packet)) (of_char (strm_threshold strm) * 1024)
        (autostart c \<ge> 2),
      SendSTAT ''STMc'' zero32] @ (if b then [SendSTAT ''STMn'' zero32] else [])"
  by (simp add: strm_s_connect_def stream_sock_def Let_def)

lemma strm_s_connect_bookkeeping:
  "bookkeeping (fst (strm_s_connect K pkt len strm ip b c)) =
     (last_command c, autostart c, False, False, False, False, False)"
  by (simp add: strm_s_connect_def stream_sock_def Let_def reset_latches_def bookkeeping_def)

subsection \<open>Evaluation on the concrete player\<close>

lemma u8_compare [simp]:
  "\<not> (2::u8) \<le> 1" "\<not> (2::u8) \<le> 0" "(2::u8) \<le> 2" "(2::u8) \<le> 3"
  "\<not> (1::u8) < 1" "\<not> (1::u8) < 0" "(1::u8) < 2" "(1::u8) < 3"
  by (simp_all add: word_le_nat_alt word_less_nat_alt)

lemma strm_packet_of_frame:
  "strm_packet_of (pkt_of (strm_frame cmd auto fmt [g0, g1, g2, g3] [p0, p1] [i0, i1, i2, i3])) =
     \<lparr>strm_command = cmd, strm_autostart = auto, strm_format = fmt,
      strm_pcm_sample_size = CHR ''1'', strm_pcm_sample_rate = CHR ''3'',
      strm_pcm_channels = CHR ''2'', strm_pcm_endianness = CHR ''1'', strm_threshold = CHR 0xFF,
      strm_transition_period = CHR 0x00, strm_transition_type = CHR ''0'',
      strm_replay_gain = [g0, g1, g2, g3], strm_server_port = [p0, p1],
      strm_server_ip = [i0, i1, i2, i3]\<rparr>"
  by (simp add: strm_packet_of_def pkt_of_def strm_frame_def bytes_at_def)

lemmas ps_defs = process_start_def ps_begin_def ps_source_def ps_setup_def ps_mode_def
  mode_param_def ps_mimetype_def ps_mime_thru_def ps_mime_pcm_def ps_mime_flac_def ps_mime_mp3_def
  ps_open_def codec_open_def output_set_icy_def table_read_def pcm_sample_size_def
  pcm_sample_rate_def pcm_channels_def upd_output_def upd_encode_def ext_def ext_r_def
  get_shared_def put_shared_def ctx_callback_def stristr_def tolower_c_def atoi_def

lemmas strm_defs = process_strm_def strm_s_def strm_s_begin_def strm_s_fade_def
  strm_s_connect_def stream_sock_def reset_latches_def sizeof_strm_packet_def raw_zero_def
  unpackN_def Let_def

lemmas demo_defs = demo_platform_def demo_ctx_def demo_output_def demo_metadata_def
  zero32_def port9000_def bytes_at_def

text \<open>\<open>strm s\<close> for the codec \<open>x\<close> with autostart 1, on a player that decodes pcm only: the
  negotiator fails.\<close>

lemma demo_negotiation_x:
  "fst (process_start demo_platform (CHR ''x'') (CHR ''3'') (CHR ''1'') (CHR ''2'') (CHR ''1'')
          (strm_s_fade (strm_packet_of (pkt_of (strm_frame (CHR ''s'') (CHR ''1'') (CHR ''x'')
                                                  zero32 port9000 zero32)))
             (strm_s_begin (strm_packet_of (pkt_of (strm_frame (CHR ''s'') (CHR ''1'') (CHR ''x'')
                                                      zero32 port9000 zero32))) demo_ctx))) =
     Inr False"
  by (simp add: strm_packet_of_frame strm_defs ps_defs demo_defs)

lemma demo_strm_s_x:
  "fst (snd (process_strm demo_platform
      (pkt_of (strm_frame (CHR ''s'') (CHR ''1'') (CHR ''x'') zero32 port9000 zero32)) 28 demo_ctx)) =
   [SendSTAT ''STMf'' zero32, LOCK MUTEX_O, Buf_resize 1048576, UNLOCK MUTEX_O, Sq_get_metadata 0,
    Buf_reset, Stream_sock [CHR 0xC0, CHR 0xA8, CHR 0x01, CHR 0x0A] port9000 [] 0 261120 False,
    SendSTAT ''STMc'' zero32, SendSTAT ''STMn'' zero32]"
  by (simp add: strm_packet_of_frame strm_defs ps_defs demo_defs)

text \<open>The same frame for pcm: the negotiator succeeds.\<close>

lemma demo_strm_s_p:
  "fst (snd (process_strm demo_platform
      (pkt_of (strm_frame (CHR ''s'') (CHR ''1'') (CHR ''p'') zero32 port9000 zero32)) 28 demo_ctx)) =
   [SendSTAT ''STMf'' zero32, LOCK MUTEX_O, Buf_resize 1048576, UNLOCK MUTEX_O, Sq_get_metadata 0,
    Buf_reset, Codec_open (CHR ''p'') 16 44100 2 1, Output_start,
    Callback SQ_SET_TRACK (Param_track \<lparr>tp_offset = 0, tp_metadata = demo_metadata,
       tp_mimetype = ''audio/L16'', tp_uri_index = 1, tp_uri_ext = ''wav''\<rparr>),
    Stream_sock [CHR 0xC0, CHR 0xA8, CHR 0x01, CHR 0x0A] port9000 [] 0 261120 False,
    SendSTAT ''STMc'' zero32]"
  by (simp add: strm_packet_of_frame strm_defs ps_defs demo_defs)

subsection \<open>The claims about process_strm\<close>

text \<open>
  \<^bold>\<open>C8\<close> (amended).  Processing \<open>strm p\<close> with a zero interval field sets the output state to
  \<open>OUTPUT_WAITING\<close> under the output lock and changes nothing else but \<open>last_command\<close>, invokes
  the \<open>SQ_PAUSE\<close> callback once if a callback is registered (\<open>ctx_callback\<close> calls nothing
  otherwise), and replies \<open>STMp\<close>.  With any other interval it leaves the output state as it
  is, invokes no callback and sends nothing: only \<open>last_command\<close> is updated.
\<close>

theorem strm_p_pause:
  assumes "strm_command (strm_packet_of pkt) = CHR ''p''"
  shows "(unpackN (strm_replay_gain (strm_packet_of pkt)) = 0 \<longrightarrow>
            output_state (output' (fst (process_strm K pkt len c))) = OUTPUT_WAITING \<and>
            fst (process_strm K pkt len c) =
              c\<lparr>output' := (output' c)\<lparr>output_state := OUTPUT_WAITING\<rparr>, last_command := CHR ''p''\<rparr> \<and>
            fst (snd (process_strm K pkt len c)) =
              [LOCK MUTEX_O, UNLOCK MUTEX_O] @
              (if callback c = None then [] else [Callback SQ_PAUSE No_param]) @
              [SendSTAT ''STMp'' zero32] \<and>
            callbacks SQ_PAUSE (fst (snd (process_strm K pkt len c))) =
              (if callback c = None then 0 else 1) \<and>
            wire (fst (snd (process_strm K pkt len c))) = [''STMp''] \<and>
            snd (snd (process_strm K pkt len c)) = None) \<and>
         (unpackN (strm_replay_gain (strm_packet_of pkt)) \<noteq> 0 \<longrightarrow>
            process_strm K pkt len c = (c\<lparr>last_command := CHR ''p''\<rparr>, [], None) \<and>
            output_state (output' (fst (process_strm K pkt len c))) = output_state (output' c))"
  using assms
  by (auto simp add: process_strm_def strm_p_def Let_def ctx_callback_def upd_output_def
      callbacks_def wire_Cons split: option.splits)

theorem strm_p_pause_witness:
  "strm_command (strm_packet_of (pkt_of (strm_frame (CHR ''p'') (CHR ''0'') (CHR ''p'')
       zero32 port9000 zero32))) = CHR ''p'' \<and>
   unpackN (strm_replay_gain (strm_packet_of (pkt_of (strm_frame (CHR ''p'') (CHR ''0'') (CHR ''p'')
       zero32 port9000 zero32)))) = 0 \<and>
   output_state (output' demo_ctx) = OUTPUT_STOPPED \<and>
   output_state (output' (fst (process_strm demo_platform
     (pkt_of (strm_frame (CHR ''p'') (CHR ''0'') (CHR ''p'') zero32 port9000 zero32)) 28 demo_ctx))) =
     OUTPUT_WAITING \<and>
   fst (snd (process_strm demo_platform
     (pkt_of (strm_frame (CHR ''p'') (CHR ''0'') (CHR ''p'') zero32 port9000 zero32)) 28 demo_ctx)) =
     [LOCK MUTEX_O, UNLOCK MUTEX_O, Callback SQ_PAUSE No_param, SendSTAT ''STMp'' zero32] \<and>
   unpackN (strm_replay_gain (strm_packet_of (pkt_of (strm_frame (CHR ''p'') (CHR ''0'') (CHR ''p'')
       [CHR 0x00, CHR 0x00, CHR 0x01, CHR 0xF4] port9000 zero32)))) = 500 \<and>
   process_strm demo_platform
     (pkt_of (strm_frame (CHR ''p'') (CHR ''0'') (CHR ''p'') [CHR 0x00, CHR 0x00, CHR 0x01, CHR 0xF4]
        port9000 zero32)) 28 demo_ctx =
     (demo_ctx\<lparr>last_command := CHR ''p''\<rparr>, [], None)"
proof -
  let ?p0 = "pkt_of (strm_frame (CHR ''p'') (CHR ''0'') (CHR ''p'') zero32 port9000 zero32)"
  let ?p500 = "pkt_of (strm_frame (CHR ''p'') (CHR ''0'') (CHR ''p'')
      [CHR 0x00, CHR 0x00, CHR 0x01, CHR 0xF4] port9000 zero32)"
  have cmd: "strm_command (strm_packet_of ?p0) = CHR ''p''"
    "strm_command (strm_packet_of ?p500) = CHR ''p''"
    by (simp_all add: strm_packet_of_frame zero32_def port9000_def)
  have gain: "unpackN (strm_replay_gain (strm_packet_of ?p0)) = 0"
    "unpackN (strm_replay_gain (strm_packet_of ?p500)) = 500"
    by (simp_all add: strm_packet_of_frame zero32_def port9000_def unpackN_def)
  have ne: "unpackN (strm_replay_gain (strm_packet_of ?p500)) \<noteq> 0"
    unfolding gain by simp
  have demo: "output_state (output' demo_ctx) = OUTPUT_STOPPED"
    "(if callback demo_ctx = None then [] else [Callback SQ_PAUSE No_param]) =
       [Callback SQ_PAUSE No_param]"
    by (simp_all add: demo_ctx_def demo_output_def)
  note t0 = strm_p_pause [where pkt = ?p0 and K = demo_platform and len = 28 and c = demo_ctx,
      OF cmd(1)]
  note t500 = strm_p_pause [where pkt = ?p500 and K = demo_platform and len = 28 and c = demo_ctx,
      OF cmd(2)]
  from t0 gain(1)
  have waiting: "output_state (output' (fst (process_strm demo_platform ?p0 28 demo_ctx))) =
      OUTPUT_WAITING"
    by blast
  from t0 gain(1)
  have "fst (snd (process_strm demo_platform ?p0 28 demo_ctx)) =
      [LOCK MUTEX_O, UNLOCK MUTEX_O] @
      (if callback demo_ctx = None then [] else [Callback SQ_PAUSE No_param]) @
      [SendSTAT ''STMp'' zero32]"
    by blast
  then have effects: "fst (snd (process_strm demo_platform ?p0 28 demo_ctx)) =
      [LOCK MUTEX_O, UNLOCK MUTEX_O, Callback SQ_PAUSE No_param, SendSTAT ''STMp'' zero32]"
    unfolding demo(2) by simp
  from t500 ne
  have other: "process_strm demo_platform ?p500 28 demo_ctx =
      (demo_ctx\<lparr>last_command := CHR ''p''\<rparr>, [], None)"
    by blast
  show ?thesis
    by (intro conjI cmd(1) gain demo(1) waiting effects other)
qed

text \<open>The claim as it is stated fails on a player without a registered callback: the
  output state is set and \<open>STMp\<close> is sent, but no \<open>SQ_PAUSE\<close> callback is invoked.\<close>

theorem strm_p_pause_counterexample:
  "unpackN (strm_replay_gain (strm_packet_of (pkt_of (strm_frame (CHR ''p'') (CHR ''0'') (CHR ''p'')
       zero32 port9000 zero32)))) = 0 \<and>
   \<not> list_ex (is_callback SQ_PAUSE) (fst (snd (process_strm demo_platform
     (pkt_of (strm_frame (CHR ''p'') (CHR ''0'') (CHR ''p'') zero32 port9000 zero32)) 28
     (demo_ctx\<lparr>callback := None\<rparr>))))"
  by (simp add: strm_packet_of_frame zero32_def port9000_def unpackN_def process_strm_def
      strm_p_def Let_def ctx_callback_def upd_output_def)

text \<open>
  \<^bold>\<open>C10\<close>.  When a \<open>strm s\<close> opcode carries an appended HTTP header longer than
  \<open>MAX_HEADER - 1\<close> bytes, the handler returns after sending \<open>STMf\<close>: \<open>stream_sock\<close> is not
  called, \<open>STMc\<close> is not sent, the format negotiator is not run, and the latches keep their
  values, while \<open>autostart\<close> and \<open>last_command\<close> are updated.  The whole result is the context
  with these two fields set, and the single effect \<open>STMf\<close>.
\<close>

theorem strm_s_header_too_long:
  assumes "strm_command (strm_packet_of pkt) = CHR ''s''"
    and "(word_of_int (len - int sizeof_strm_packet) :: u32) > MAX_HEADER K - 1"
  shows "process_strm K pkt len c =
           (c\<lparr>autostart := of_char (strm_autostart (strm_packet_of pkt)) - of_char (CHR ''0''),
              last_command := CHR ''s''\<rparr>,
            [SendSTAT ''STMf'' zero32], None)"
  using assms
  by (simp add: process_strm_def strm_s_def strm_s_begin_def Let_def)

theorem strm_s_header_too_long_witness:
  "strm_command (strm_packet_of (pkt_of (strm_frame (CHR ''s'') (CHR ''1'') (CHR ''p'')
       zero32 port9000 zero32))) = CHR ''s'' \<and>
   (word_of_int (4124 - int sizeof_strm_packet) :: u32) > MAX_HEADER demo_platform - 1 \<and>
   process_strm demo_platform
     (pkt_of (strm_frame (CHR ''s'') (CHR ''1'') (CHR ''p'') zero32 port9000 zero32)) 4124 demo_ctx =
     (demo_ctx\<lparr>autostart := 1, last_command := CHR ''s''\<rparr>, [SendSTAT ''STMf'' zero32], None)"
  using strm_s_header_too_long
    [where pkt = "pkt_of (strm_frame (CHR ''s'') (CHR ''1'') (CHR ''p'') zero32 port9000 zero32)"
      and len = 4124 and K = demo_platform and c = demo_ctx]
  by (simp add: strm_packet_of_frame zero32_def port9000_def sizeof_strm_packet_def
      demo_platform_def word_less_nat_alt)

text \<open>
  \<^bold>\<open>C9\<close>.  For every \<open>strm s\<close> opcode whose \<open>server_ip\<close> field is zero, the address passed to
  \<open>stream_sock\<close> is the address of the connected control server (\<open>slimproto_ip\<close>), and the port
  is the \<open>server_port\<close> field as it came, in network byte order.
\<close>

theorem strm_s_server_ip_zero:
  assumes s: "strm_command (strm_packet_of pkt) = CHR ''s''"
    and z: "raw_zero (strm_server_ip (strm_packet_of pkt))"
    and m: "Stream_sock ip port header header_len threshold cont_wait
              \<in> set (fst (snd (process_strm K pkt len c)))"
  shows "ip = slimproto_ip c \<and> port = strm_server_port (strm_packet_of pkt)"
proof -
  let ?strm = "strm_packet_of pkt"
  let ?c2 = "strm_s_fade ?strm (strm_s_begin ?strm c)"
  let ?ps = "process_start K (strm_format ?strm) (strm_pcm_sample_rate ?strm)
               (strm_pcm_sample_size ?strm) (strm_pcm_channels ?strm)
               (strm_pcm_endianness ?strm) ?c2"
  have neg: "Stream_sock ip port header header_len threshold cont_wait \<notin> set (snd (snd ?ps))"
    by (rule negotiation_no_stream_sock) simp
  from m s z neg show ?thesis
    by (auto simp add: process_strm_def strm_s_def Let_def split_beta strm_s_connect_effects
          split: if_splits sum.splits option.splits prod.splits)
qed

theorem strm_s_server_ip_zero_witness:
  "strm_command (strm_packet_of (pkt_of (strm_frame (CHR ''s'') (CHR ''1'') (CHR ''p'')
       zero32 port9000 zero32))) = CHR ''s'' \<and>
   raw_zero (strm_server_ip (strm_packet_of (pkt_of (strm_frame (CHR ''s'') (CHR ''1'') (CHR ''p'')
       zero32 port9000 zero32)))) \<and>
   Stream_sock [CHR 0xC0, CHR 0xA8, CHR 0x01, CHR 0x0A] port9000 [] 0 261120 False
     \<in> set (fst (snd (process_strm demo_platform
          (pkt_of (strm_frame (CHR ''s'') (CHR ''1'') (CHR ''p'') zero32 port9000 zero32)) 28 demo_ctx))) \<and>
   [CHR 0xC0, CHR 0xA8, CHR 0x01, CHR 0x0A] = slimproto_ip demo_ctx \<and>
   port9000 = strm_server_port (strm_packet_of (pkt_of (strm_frame (CHR ''s'') (CHR ''1'') (CHR ''p'')
       zero32 port9000 zero32)))"
  using strm_s_server_ip_zero
    [where pkt = "pkt_of (strm_frame (CHR ''s'') (CHR ''1'') (CHR ''p'') zero32 port9000 zero32)"
      and ip = "[CHR 0xC0, CHR 0xA8, CHR 0x01, CHR 0x0A]" and port = port9000 and header = "[]"
      and header_len = 0 and threshold = 261120 and cont_wait = False and K = demo_platform
      and len = 28 and c = demo_ctx]
  by (simp add: demo_strm_s_p) (simp add: strm_packet_of_frame zero32_def port9000_def raw_zero_def demo_ctx_def)

text \<open>
  \<^bold>\<open>C2\<close> (amended).  When a \<open>strm s\<close> opcode arrives whose format byte is an unknown codec
  (any byte but \<open>?\<close> for which the negotiator fails, such as \<open>x\<close>), whose autostart digit is
  \<open>1\<close> and whose header fits, the controller replies \<open>STMf\<close>, runs the negotiator, still calls
  \<open>stream_sock\<close>, replies \<open>STMc\<close>, resets the latches, and then sends \<open>STMn\<close>.
\<close>

theorem strm_s_unknown_codec:
  assumes "strm_command (strm_packet_of pkt) = CHR ''s''"
    and "strm_format (strm_packet_of pkt) \<noteq> CHR ''?''"
    and "strm_autostart (strm_packet_of pkt) = CHR ''1''"
    and "\<not> (word_of_int (len - int sizeof_strm_packet) :: u32) > MAX_HEADER K - 1"
    and "process_start K (strm_format (strm_packet_of pkt)) (strm_pcm_sample_rate (strm_packet_of pkt))
           (strm_pcm_sample_size (strm_packet_of pkt)) (strm_pcm_channels (strm_packet_of pkt))
           (strm_pcm_endianness (strm_packet_of pkt))
           (strm_s_fade (strm_packet_of pkt) (strm_s_begin (strm_packet_of pkt) c)) =
         (Inr False, c3, es3)"
  shows "fst (snd (process_strm K pkt len c)) =
           [SendSTAT ''STMf'' zero32] @ es3 @
           [Stream_sock
              (if raw_zero (strm_server_ip (strm_packet_of pkt)) then slimproto_ip c
               else strm_server_ip (strm_packet_of pkt))
              (strm_server_port (strm_packet_of pkt))
              (bytes_at pkt sizeof_strm_packet (unat (word_of_int (len - int sizeof_strm_packet) :: u32)))
              (word_of_int (len - int sizeof_strm_packet))
              (of_char (strm_threshold (strm_packet_of pkt)) * 1024) False,
            SendSTAT ''STMc'' zero32, SendSTAT ''STMn'' zero32] \<and>
         wire (fst (snd (process_strm K pkt len c))) = [''STMf'', ''STMc'', ''STMn''] \<and>
         snd (snd (process_strm K pkt len c)) = None \<and>
         bookkeeping (fst (process_strm K pkt len c)) = (CHR ''s'', 1, False, False, False, False, False)"
proof -
  let ?strm = "strm_packet_of pkt"
  let ?c2 = "strm_s_fade ?strm (strm_s_begin ?strm c)"
  have k3: "kept c3 = kept ?c2"
    using process_start_kept [of K "strm_format ?strm" "strm_pcm_sample_rate ?strm"
        "strm_pcm_sample_size ?strm" "strm_pcm_channels ?strm" "strm_pcm_endianness ?strm" ?c2]
      assms(5) by simp
  have a2: "autostart ?c2 = 1"
    using assms(3) by (simp add: strm_s_fade_def strm_s_begin_def upd_output_def)
  have a3: "autostart c3 = 1"
    using kept_autostart [OF k3] a2 by simp
  have w3: "wire es3 = []"
    using process_start_effects [of K "strm_format ?strm" "strm_pcm_sample_rate ?strm"
        "strm_pcm_sample_size ?strm" "strm_pcm_channels ?strm" "strm_pcm_endianness ?strm" ?c2]
      assms(5) by (simp add: negotiation_wire)
  have ip: "slimproto_ip (strm_s_begin ?strm c) = slimproto_ip c"
    by (simp add: strm_s_begin_def)
  show ?thesis
    using assms a3 w3
    by (simp add: process_strm_def strm_s_def Let_def split_beta strm_s_connect_effects
        strm_s_connect_bookkeeping bookkeeping_last_command wire_Cons ip)
qed

theorem strm_s_unknown_codec_witness:
  "strm_command (strm_packet_of (pkt_of (strm_frame (CHR ''s'') (CHR ''1'') (CHR ''x'')
       zero32 port9000 zero32))) = CHR ''s'' \<and>
   strm_format (strm_packet_of (pkt_of (strm_frame (CHR ''s'') (CHR ''1'') (CHR ''x'')
       zero32 port9000 zero32))) = CHR ''x'' \<and>
   strm_autostart (strm_packet_of (pkt_of (strm_frame (CHR ''s'') (CHR ''1'') (CHR ''x'')
       zero32 port9000 zero32))) = CHR ''1'' \<and>
   \<not> (word_of_int (28 - int sizeof_strm_packet) :: u32) > MAX_HEADER demo_platform - 1 \<and>
   fst (process_start demo_platform (CHR ''x'') (CHR ''3'') (CHR ''1'') (CHR ''2'') (CHR ''1'')
          (strm_s_fade (strm_packet_of (pkt_of (strm_frame (CHR ''s'') (CHR ''1'') (CHR ''x'')
                                                  zero32 port9000 zero32)))
             (strm_s_begin (strm_packet_of (pkt_of (strm_frame (CHR ''s'') (CHR ''1'') (CHR ''x'')
                                                      zero32 port9000 zero32))) demo_ctx))) =
     Inr False \<and>
   wire (fst (snd (process_strm demo_platform
      (pkt_of (strm_frame (CHR ''s'') (CHR ''1'') (CHR ''x'') zero32 port9000 zero32)) 28 demo_ctx))) =
     [''STMf'', ''STMc'', ''STMn'']"
proof -
  let ?pkt = "pkt_of (strm_frame (CHR ''s'') (CHR ''1'') (CHR ''x'') zero32 port9000 zero32)"
  let ?c2 = "strm_s_fade (strm_packet_of ?pkt) (strm_s_begin (strm_packet_of ?pkt) demo_ctx)"
  obtain r c3 es3 where
    ps: "process_start demo_platform (CHR ''x'') (CHR ''3'') (CHR ''1'') (CHR ''2'') (CHR ''1'') ?c2 =
           (r, c3, es3)"
    by (cases "process_start demo_platform (CHR ''x'') (CHR ''3'') (CHR ''1'') (CHR ''2'') (CHR ''1'') ?c2")
  have r: "r = Inr False"
    using demo_negotiation_x ps by simp
  have h: "strm_command (strm_packet_of ?pkt) = CHR ''s''"
    "strm_format (strm_packet_of ?pkt) = CHR ''x''"
    "strm_autostart (strm_packet_of ?pkt) = CHR ''1''"
    "strm_pcm_sample_rate (strm_packet_of ?pkt) = CHR ''3''"
    "strm_pcm_sample_size (strm_packet_of ?pkt) = CHR ''1''"
    "strm_pcm_channels (strm_packet_of ?pkt) = CHR ''2''"
    "strm_pcm_endianness (strm_packet_of ?pkt) = CHR ''1''"
    by (simp_all add: strm_packet_of_frame zero32_def port9000_def)
  have fits: "\<not> (word_of_int (28 - int sizeof_strm_packet) :: u32) > MAX_HEADER demo_platform - 1"
    by (simp add: sizeof_strm_packet_def demo_platform_def)
  have ne: "strm_format (strm_packet_of ?pkt) \<noteq> CHR ''?''"
    using h(2) by simp
  have ps': "process_start demo_platform (strm_format (strm_packet_of ?pkt))
           (strm_pcm_sample_rate (strm_packet_of ?pkt))
           (strm_pcm_sample_size (strm_packet_of ?pkt)) (strm_pcm_channels (strm_packet_of ?pkt))
           (strm_pcm_endianness (strm_packet_of ?pkt)) ?c2 = (Inr False, c3, es3)"
    using ps r h by simp
  note t = strm_s_unknown_codec [OF h(1) ne h(3) fits ps']
  from t have "wire (fst (snd (process_strm demo_platform ?pkt 28 demo_ctx))) = [''STMf'', ''STMc'', ''STMn'']"
    by blast
  with h fits demo_negotiation_x show ?thesis
    by simp
qed

text \<open>The claim as it is stated fails on the concrete player: for the codec \<open>x\<close> with
  autostart 1 the controller sends \<open>STMn\<close>, and it has called \<open>stream_sock\<close> before.\<close>

theorem strm_s_unknown_codec_counterexample:
  "\<not> (''STMn'' \<in> set (wire (fst (snd (process_strm demo_platform
          (pkt_of (strm_frame (CHR ''s'') (CHR ''1'') (CHR ''x'') zero32 port9000 zero32)) 28
          demo_ctx)))) \<and>
       \<not> list_ex is_stream_sock (fst (snd (process_strm demo_platform
          (pkt_of (strm_frame (CHR ''s'') (CHR ''1'') (CHR ''x'') zero32 port9000 zero32)) 28
          demo_ctx))))"
  by (simp add: demo_strm_s_x)

subsection \<open>strm q and strm f\<close>

lemma get_shared_status [simp]: "get_shared (c\<lparr>status := s\<rparr>) = get_shared c"
  by (simp add: get_shared_def)

lemma process_strm_q:
  "strm_command (strm_packet_of pkt) = CHR ''q'' \<Longrightarrow>
     process_strm K pkt len c = ((fst (strm_q K c))\<lparr>last_command := CHR ''q''\<rparr>, snd (strm_q K c), None)"
  by (simp add: process_strm_def Let_def split_beta)

lemma process_strm_f:
  "strm_command (strm_packet_of pkt) = CHR ''f'' \<Longrightarrow>
     process_strm K pkt len c = ((fst (strm_f K c))\<lparr>last_command := CHR ''f''\<rparr>, snd (strm_f K c), None)"
  by (simp add: process_strm_def Let_def split_beta)

lemmas flush_defs = decode_flush_def output_flush_def stream_disconnect_def buf_flush_def
  set_ms_played_def

lemma strm_f_effects:
  "snd (strm_f K c) =
     [Decode_flush, Output_flush, Stream_disconnect, SendSTAT ''STMf'' zero32, Buf_flush]"
  by (simp add: strm_f_def flush_defs Let_def split_beta)

lemma strm_q_effects:
  "snd (strm_q K c) =
     [Decode_flush, Output_flush, Stream_disconnect] @
     (if fst (x_stream_disconnect K (x_output_flush K (x_decode_flush K (get_shared c))))
      then [SendSTAT ''STMf'' zero32] else []) @
     [Buf_flush] @
     (if last_command c \<noteq> CHR ''q'' \<and> callback c \<noteq> None then [Callback SQ_STOP No_param] else [])"
  by (auto simp add: strm_q_def flush_defs Let_def split_beta ctx_callback_def
      split: option.splits)

lemma strm_f_private [simp]:
  "last_command (fst (strm_f K c)) = last_command c" "callback (fst (strm_f K c)) = callback c"
  "status (fst (strm_f K c)) = (status c)\<lparr>status_ms_played := 0\<rparr>"
  "get_shared (fst (strm_f K c)) =
     x_buf_flush K (snd (x_stream_disconnect K (x_output_flush K (x_decode_flush K (get_shared c)))))"
  by (simp_all add: strm_f_def flush_defs Let_def split_beta)

lemma strm_q_ctx: "fst (strm_q K c) = fst (strm_f K c)"
  by (simp add: strm_q_def strm_f_def flush_defs Let_def split_beta ext_def ext_r_def
      put_shared_def get_shared_def)

lemma callbacks_simps [simp]:
  "callbacks a [] = 0"
  "callbacks a (xs @ ys) = callbacks a xs + callbacks a ys"
  "callbacks a (e # es) = (if is_callback a e then 1 else 0) + callbacks a es"
  by (simp_all add: callbacks_def)

lemma strm_command_frame [simp]:
  "strm_command (strm_packet_of (pkt_of (strm_frame cmd auto fmt gain port ip))) = cmd"
  by (simp add: strm_packet_of_def pkt_of_def strm_frame_def)

text \<open>
  \<^bold>\<open>C3\<close>.  Of two consecutive \<open>strm q\<close> the second never invokes \<open>SQ_STOP\<close>, and the first
  invokes it once when the command before was not \<open>q\<close> and a callback is registered: then
  the two invoke it exactly once, otherwise not at all.  Two consecutive \<open>strm f\<close> put
  \<open>STMf\<close>, and nothing else, on the wire both times.  \<open>q\<close> leaves the context that \<open>f\<close> leaves
  (with its own \<open>last_command\<close>, and \<open>ms_played\<close> zero) and makes the calls that \<open>f\<close> makes: it
  flushes the decoder and the output, disconnects the stream and flushes the stream buffer;
  but it sends \<open>STMf\<close> only when \<open>stream_disconnect\<close> returns true.
\<close>

theorem flush_idempotence:
  assumes "strm_command (strm_packet_of q1) = CHR ''q''"
    and "strm_command (strm_packet_of q2) = CHR ''q''"
    and "strm_command (strm_packet_of f1) = CHR ''f''"
    and "strm_command (strm_packet_of f2) = CHR ''f''"
  shows "callbacks SQ_STOP (fst (snd (process_strm K q1 l1 c))) +
         callbacks SQ_STOP (fst (snd (process_strm K q2 l2 (fst (process_strm K q1 l1 c))))) =
           (if last_command c \<noteq> CHR ''q'' \<and> callback c \<noteq> None then 1 else 0) \<and>
         callbacks SQ_STOP (fst (snd (process_strm K q2 l2 (fst (process_strm K q1 l1 c))))) = 0 \<and>
         wire (fst (snd (process_strm K f1 l3 c))) = [''STMf''] \<and>
         wire (fst (snd (process_strm K f2 l4 (fst (process_strm K f1 l3 c))))) = [''STMf''] \<and>
         fst (process_strm K q1 l1 c) = (fst (process_strm K f1 l3 c))\<lparr>last_command := CHR ''q''\<rparr> \<and>
         status_ms_played (status (fst (process_strm K q1 l1 c))) = 0 \<and>
         filter (\<lambda>e. wire_tag e = None \<and> \<not> is_callback SQ_STOP e) (fst (snd (process_strm K q1 l1 c))) =
           [Decode_flush, Output_flush, Stream_disconnect, Buf_flush] \<and>
         filter (\<lambda>e. wire_tag e = None) (fst (snd (process_strm K f1 l3 c))) =
           [Decode_flush, Output_flush, Stream_disconnect, Buf_flush] \<and>
         wire (fst (snd (process_strm K q1 l1 c))) =
           (if fst (x_stream_disconnect K (x_output_flush K (x_decode_flush K (get_shared c))))
            then [''STMf''] else [])"
  using assms
  by (simp add: process_strm_q process_strm_f strm_q_effects strm_f_effects strm_q_ctx wire_Cons)

theorem flush_idempotence_witness:
  "strm_command (strm_packet_of (pkt_of (strm_frame (CHR ''q'') (CHR ''0'') (CHR ''p'') zero32 port9000 zero32))) = CHR ''q'' \<and>
   strm_command (strm_packet_of (pkt_of (strm_frame (CHR ''f'') (CHR ''0'') (CHR ''p'') zero32 port9000 zero32))) = CHR ''f'' \<and>
   callbacks SQ_STOP (fst (snd (process_strm demo_platform
       (pkt_of (strm_frame (CHR ''q'') (CHR ''0'') (CHR ''p'') zero32 port9000 zero32)) 28 demo_ctx))) +
   callbacks SQ_STOP (fst (snd (process_strm demo_platform
       (pkt_of (strm_frame (CHR ''q'') (CHR ''0'') (CHR ''p'') zero32 port9000 zero32)) 28
       (fst (process_strm demo_platform
          (pkt_of (strm_frame (CHR ''q'') (CHR ''0'') (CHR ''p'') zero32 port9000 zero32)) 28 demo_ctx))))) = 1 \<and>
   wire (fst (snd (process_strm demo_platform
       (pkt_of (strm_frame (CHR ''f'') (CHR ''0'') (CHR ''p'') zero32 port9000 zero32)) 28
       (fst (process_strm demo_platform
          (pkt_of (strm_frame (CHR ''f'') (CHR ''0'') (CHR ''p'') zero32 port9000 zero32)) 28 demo_ctx))))) =
     [''STMf'']"
proof -
  let ?q = "pkt_of (strm_frame (CHR ''q'') (CHR ''0'') (CHR ''p'') zero32 port9000 zero32)"
  let ?f = "pkt_of (strm_frame (CHR ''f'') (CHR ''0'') (CHR ''p'') zero32 port9000 zero32)"
  have h: "(if last_command demo_ctx \<noteq> CHR ''q'' \<and> callback demo_ctx \<noteq> None then 1 else 0) = (1::nat)"
    by (simp add: demo_ctx_def)
  note t = flush_idempotence [where K = demo_platform and c = demo_ctx and ?l1.0 = 28 and ?l2.0 = 28
      and ?l3.0 = 28 and ?l4.0 = 28 and ?q1.0 = ?q and ?q2.0 = ?q and ?f1.0 = ?f and ?f2.0 = ?f,
      OF strm_command_frame strm_command_frame strm_command_frame strm_command_frame]
  from t have "callbacks SQ_STOP (fst (snd (process_strm demo_platform ?q 28 demo_ctx))) +
      callbacks SQ_STOP (fst (snd (process_strm demo_platform ?q 28
        (fst (process_strm demo_platform ?q 28 demo_ctx))))) =
      (if last_command demo_ctx \<noteq> CHR ''q'' \<and> callback demo_ctx \<noteq> None then 1 else 0)"
    by blast
  then have once: "callbacks SQ_STOP (fst (snd (process_strm demo_platform ?q 28 demo_ctx))) +
      callbacks SQ_STOP (fst (snd (process_strm demo_platform ?q 28
        (fst (process_strm demo_platform ?q 28 demo_ctx))))) = 1"
    using h by (rule trans)
  from t have twice: "wire (fst (snd (process_strm demo_platform ?f 28
        (fst (process_strm demo_platform ?f 28 demo_ctx))))) = [''STMf'']"
    by blast
  show ?thesis
    by (intro conjI strm_command_frame once twice)
qed

text \<open>For any state the claim fails: when the command before was already \<open>q\<close>, two more
  \<open>strm q\<close> invoke \<open>SQ_STOP\<close> not once.\<close>

theorem flush_idempotence_counterexample:
  "\<not> (callbacks SQ_STOP (fst (snd (process_strm demo_platform
       (pkt_of (strm_frame (CHR ''q'') (CHR ''0'') (CHR ''p'') zero32 port9000 zero32)) 28
       (demo_ctx\<lparr>last_command := CHR ''q''\<rparr>)))) +
   callbacks SQ_STOP (fst (snd (process_strm demo_platform
       (pkt_of (strm_frame (CHR ''q'') (CHR ''0'') (CHR ''p'') zero32 port9000 zero32)) 28
       (fst (process_strm demo_platform
          (pkt_of (strm_frame (CHR ''q'') (CHR ''0'') (CHR ''p'') zero32 port9000 zero32)) 28
          (demo_ctx\<lparr>last_command := CHR ''q''\<rparr>)))))) = 1)"
  by (simp add: process_strm_q strm_q_effects strm_q_ctx)

subsection \<open>The stages of the status ticker\<close>

lemmas upd_defs = upd_status_def upd_stream_def upd_output_def upd_encode_def copy_header_def

text \<open>What each stage of the ticker changes, and what it leaves alone.\<close>

lemma tick_sample_stream_keeps [simp]:
  "stream (tick_sample_stream K c) = stream c"
  "decode (tick_sample_stream K c) = decode c"
  "output' (tick_sample_stream K c) = output' c"
  "render (tick_sample_stream K c) = render c"
  "slim_run (tick_sample_stream K c) = slim_run c"
  "canSTMdu (tick_sample_stream K c) = canSTMdu c"
  "sentSTMu (tick_sample_stream K c) = sentSTMu c"
  "sentSTMo (tick_sample_stream K c) = sentSTMo c"
  "sentSTMl (tick_sample_stream K c) = sentSTMl c"
  "autostart (tick_sample_stream K c) = autostart c"
  "callback (tick_sample_stream K c) = callback c"
  "status_stream_bytes (status (tick_sample_stream K c)) = stream_bytes (stream c)"
  "status_stream_state (status (tick_sample_stream K c)) = stream_state (stream c)"
  "status_output_ready (status (tick_sample_stream K c)) = status_output_ready (status c)"
  "status_duration (status (tick_sample_stream K c)) = status_duration (status c)"
  "status_ms_played (status (tick_sample_stream K c)) = status_ms_played (status c)"
  "status_last (status (tick_sample_stream K c)) = status_last (status c)"
  by (simp_all add: tick_sample_stream_def upd_defs)

text \<open>The stream has disconnected.\<close>

lemma tick_dsco_keeps [simp]:
  "decode (fst (tick_dsco cf)) = decode (fst cf)"
  "output' (fst (tick_dsco cf)) = output' (fst cf)"
  "render (fst (tick_dsco cf)) = render (fst cf)"
  "status (fst (tick_dsco cf)) = status (fst cf)"
  "slim_run (fst (tick_dsco cf)) = slim_run (fst cf)"
  "canSTMdu (fst (tick_dsco cf)) = canSTMdu (fst cf)"
  "sentSTMu (fst (tick_dsco cf)) = sentSTMu (fst cf)"
  "sentSTMo (fst (tick_dsco cf)) = sentSTMo (fst cf)"
  "sentSTMl (fst (tick_dsco cf)) = sentSTMl (fst cf)"
  "autostart (fst (tick_dsco cf)) = autostart (fst cf)"
  "callback (fst (tick_dsco cf)) = callback (fst cf)"
  "fl_sendSTMs (snd (tick_dsco cf)) = fl_sendSTMs (snd cf)"
  "fl_sendRESP (snd (tick_dsco cf)) = fl_sendRESP (snd cf)"
  "fl_sendMETA (snd (tick_dsco cf)) = fl_sendMETA (snd cf)"
  "fl_sendSTMd (snd (tick_dsco cf)) = fl_sendSTMd (snd cf)"
  "fl_sendSTMt (snd (tick_dsco cf)) = fl_sendSTMt (snd cf)"
  "fl_sendSTMl (snd (tick_dsco cf)) = fl_sendSTMl (snd cf)"
  "fl_sendSTMu (snd (tick_dsco cf)) = fl_sendSTMu (snd cf)"
  "fl_sendSTMo (snd (tick_dsco cf)) = fl_sendSTMo (snd cf)"
  "fl_sendSTMn (snd (tick_dsco cf)) = fl_sendSTMn (snd cf)"
  "fl_stream_disconnect (snd (tick_dsco cf)) = fl_stream_disconnect (snd cf)"
  "fl_header_len (snd (tick_dsco cf)) = fl_header_len (snd cf)"
  "stream_disconnect_code (stream (fst (tick_dsco cf))) = stream_disconnect_code (stream (fst cf))"
  "stream_bytes (stream (fst (tick_dsco cf))) = stream_bytes (stream (fst cf))"
  by (simp_all add: tick_dsco_def split_beta upd_defs)

text \<open>The response headers.\<close>

lemma tick_resp_keeps [simp]:
  "decode (fst (tick_resp cf)) = decode (fst cf)"
  "output' (fst (tick_resp cf)) = output' (fst cf)"
  "render (fst (tick_resp cf)) = render (fst cf)"
  "status (fst (tick_resp cf)) = status (fst cf)"
  "canSTMdu (fst (tick_resp cf)) = canSTMdu (fst cf)"
  "sentSTMu (fst (tick_resp cf)) = sentSTMu (fst cf)"
  "sentSTMo (fst (tick_resp cf)) = sentSTMo (fst cf)"
  "sentSTMl (fst (tick_resp cf)) = sentSTMl (fst cf)"
  "autostart (fst (tick_resp cf)) = autostart (fst cf)"
  "callback (fst (tick_resp cf)) = callback (fst cf)"
  "fl_sendSTMs (snd (tick_resp cf)) = fl_sendSTMs (snd cf)"
  "fl_sendDSCO (snd (tick_resp cf)) = fl_sendDSCO (snd cf)"
  "fl_sendMETA (snd (tick_resp cf)) = fl_sendMETA (snd cf)"
  "fl_sendSTMd (snd (tick_resp cf)) = fl_sendSTMd (snd cf)"
  "fl_sendSTMt (snd (tick_resp cf)) = fl_sendSTMt (snd cf)"
  "fl_sendSTMl (snd (tick_resp cf)) = fl_sendSTMl (snd cf)"
  "fl_sendSTMu (snd (tick_resp cf)) = fl_sendSTMu (snd cf)"
  "fl_sendSTMo (snd (tick_resp cf)) = fl_sendSTMo (snd cf)"
  "fl_sendSTMn (snd (tick_resp cf)) = fl_sendSTMn (snd cf)"
  "fl_stream_disconnect (snd (tick_resp cf)) = fl_stream_disconnect (snd cf)"
  "fl_disconnect_code (snd (tick_resp cf)) = fl_disconnect_code (snd cf)"
  "stream_disconnect_code (stream (fst (tick_resp cf))) = stream_disconnect_code (stream (fst cf))"
  "stream_bytes (stream (fst (tick_resp cf))) = stream_bytes (stream (fst cf))"
  "stream_state (stream (fst (tick_resp cf))) = stream_state (stream (fst cf))"
  by (simp_all add: tick_resp_def split_beta upd_defs)

text \<open>The ICY metadata.\<close>

lemma tick_meta_keeps [simp]:
  "decode (fst (tick_meta cf)) = decode (fst cf)"
  "output' (fst (tick_meta cf)) = output' (fst cf)"
  "render (fst (tick_meta cf)) = render (fst cf)"
  "status (fst (tick_meta cf)) = status (fst cf)"
  "canSTMdu (fst (tick_meta cf)) = canSTMdu (fst cf)"
  "sentSTMu (fst (tick_meta cf)) = sentSTMu (fst cf)"
  "sentSTMo (fst (tick_meta cf)) = sentSTMo (fst cf)"
  "sentSTMl (fst (tick_meta cf)) = sentSTMl (fst cf)"
  "autostart (fst (tick_meta cf)) = autostart (fst cf)"
  "callback (fst (tick_meta cf)) = callback (fst cf)"
  "fl_sendSTMs (snd (tick_meta cf)) = fl_sendSTMs (snd cf)"
  "fl_sendDSCO (snd (tick_meta cf)) = fl_sendDSCO (snd cf)"
  "fl_sendRESP (snd (tick_meta cf)) = fl_sendRESP (snd cf)"
  "fl_sendSTMd (snd (tick_meta cf)) = fl_sendSTMd (snd cf)"
  "fl_sendSTMt (snd (tick_meta cf)) = fl_sendSTMt (snd cf)"
  "fl_sendSTMl (snd (tick_meta cf)) = fl_sendSTMl (snd cf)"
  "fl_sendSTMu (snd (tick_meta cf)) = fl_sendSTMu (snd cf)"
  "fl_sendSTMo (snd (tick_meta cf)) = fl_sendSTMo (snd cf)"
  "fl_sendSTMn (snd (tick_meta cf)) = fl_sendSTMn (snd cf)"
  "fl_stream_disconnect (snd (tick_meta cf)) = fl_stream_disconnect (snd cf)"
  "fl_disconnect_code (snd (tick_meta cf)) = fl_disconnect_code (snd cf)"
  "stream_disconnect_code (stream (fst (tick_meta cf))) = stream_disconnect_code (stream (fst cf))"
  "stream_bytes (stream (fst (tick_meta cf))) = stream_bytes (stream (fst cf))"
  "stream_state (stream (fst (tick_meta cf))) = stream_state (stream (fst cf))"
  by (simp_all add: tick_meta_def split_beta upd_defs)

text \<open>The snapshot of the output.\<close>

lemma tick_sample_output_keeps [simp]:
  "stream (tick_sample_output c) = stream c"
  "decode (tick_sample_output c) = decode c"
  "output' (tick_sample_output c) = output' c"
  "render (tick_sample_output c) = render c"
  "slim_run (tick_sample_output c) = slim_run c"
  "canSTMdu (tick_sample_output c) = canSTMdu c"
  "sentSTMu (tick_sample_output c) = sentSTMu c"
  "sentSTMo (tick_sample_output c) = sentSTMo c"
  "sentSTMl (tick_sample_output c) = sentSTMl c"
  "autostart (tick_sample_output c) = autostart c"
  "callback (tick_sample_output c) = callback c"
  "status_output_ready (status (tick_sample_output c)) = (output_completed (out_of c) \<or> encode_flow (enc_of c))"
  "status_duration (status (tick_sample_output c)) = render_duration (render c)"
  "status_ms_played (status (tick_sample_output c)) = render_ms_played (render c)"
  "status_stream_bytes (status (tick_sample_output c)) = status_stream_bytes (status c)"
  "status_stream_state (status (tick_sample_output c)) = status_stream_state (status c)"
  "status_last (status (tick_sample_output c)) = status_last (status c)"
  by (simp_all add: tick_sample_output_def upd_defs)

text \<open>Streaming properly started.\<close>

lemma tick_started_keeps [simp]:
  "stream (fst (tick_started cf)) = stream (fst cf)"
  "decode (fst (tick_started cf)) = decode (fst cf)"
  "render (fst (tick_started cf)) = render (fst cf)"
  "status (fst (tick_started cf)) = status (fst cf)"
  "slim_run (fst (tick_started cf)) = slim_run (fst cf)"
  "sentSTMu (fst (tick_started cf)) = sentSTMu (fst cf)"
  "sentSTMo (fst (tick_started cf)) = sentSTMo (fst cf)"
  "sentSTMl (fst (tick_started cf)) = sentSTMl (fst cf)"
  "autostart (fst (tick_started cf)) = autostart (fst cf)"
  "callback (fst (tick_started cf)) = callback (fst cf)"
  "fl_sendDSCO (snd (tick_started cf)) = fl_sendDSCO (snd cf)"
  "fl_sendRESP (snd (tick_started cf)) = fl_sendRESP (snd cf)"
  "fl_sendMETA (snd (tick_started cf)) = fl_sendMETA (snd cf)"
  "fl_sendSTMd (snd (tick_started cf)) = fl_sendSTMd (snd cf)"
  "fl_sendSTMt (snd (tick_started cf)) = fl_sendSTMt (snd cf)"
  "fl_sendSTMl (snd (tick_started cf)) = fl_sendSTMl (snd cf)"
  "fl_sendSTMu (snd (tick_started cf)) = fl_sendSTMu (snd cf)"
  "fl_sendSTMo (snd (tick_started cf)) = fl_sendSTMo (snd cf)"
  "fl_sendSTMn (snd (tick_started cf)) = fl_sendSTMn (snd cf)"
  "fl_stream_disconnect (snd (tick_started cf)) = fl_stream_disconnect (snd cf)"
  "fl_disconnect_code (snd (tick_started cf)) = fl_disconnect_code (snd cf)"
  "fl_header_len (snd (tick_started cf)) = fl_header_len (snd cf)"
  "output_track_started (output' (fst (tick_started cf))) = False"
  "canSTMdu (fst (tick_started cf)) = (canSTMdu (fst cf) \<or> output_track_started (out_of (fst cf)))"
  "fl_sendSTMs (snd (tick_started cf)) = (fl_sendSTMs (snd cf) \<or> output_track_started (out_of (fst cf)))"
  "output_completed (output' (fst (tick_started cf))) = output_completed (output' (fst cf))"
  "output_remote (output' (fst (tick_started cf))) = output_remote (output' (fst cf))"
  "output_encode (output' (fst (tick_started cf))) = output_encode (output' (fst cf))"
  "output_state (output' (fst (tick_started cf))) = output_state (output' (fst cf))"
  by (simp_all add: tick_started_def split_beta upd_defs)

text \<open>Nothing was received.\<close>

lemma tick_failed_keeps [simp]:
  "stream (fst (fst (tick_failed cf))) = stream (fst cf)"
  "decode (fst (fst (tick_failed cf))) = decode (fst cf)"
  "output' (fst (fst (tick_failed cf))) = output' (fst cf)"
  "status (fst (fst (tick_failed cf))) = status (fst cf)"
  "slim_run (fst (fst (tick_failed cf))) = slim_run (fst cf)"
  "sentSTMu (fst (fst (tick_failed cf))) = sentSTMu (fst cf)"
  "sentSTMo (fst (fst (tick_failed cf))) = sentSTMo (fst cf)"
  "sentSTMl (fst (fst (tick_failed cf))) = sentSTMl (fst cf)"
  "autostart (fst (fst (tick_failed cf))) = autostart (fst cf)"
  "callback (fst (fst (tick_failed cf))) = callback (fst cf)"
  "fl_sendSTMs (snd (fst (tick_failed cf))) = fl_sendSTMs (snd cf)"
  "fl_sendDSCO (snd (fst (tick_failed cf))) = fl_sendDSCO (snd cf)"
  "fl_sendRESP (snd (fst (tick_failed cf))) = fl_sendRESP (snd cf)"
  "fl_sendMETA (snd (fst (tick_failed cf))) = fl_sendMETA (snd cf)"
  "fl_sendSTMd (snd (fst (tick_failed cf))) = fl_sendSTMd (snd cf)"
  "fl_sendSTMt (snd (fst (tick_failed cf))) = fl_sendSTMt (snd cf)"
  "fl_sendSTMl (snd (fst (tick_failed cf))) = fl_sendSTMl (snd cf)"
  "fl_sendSTMu (snd (fst (tick_failed cf))) = fl_sendSTMu (snd cf)"
  "fl_sendSTMo (snd (fst (tick_failed cf))) = fl_sendSTMo (snd cf)"
  "fl_stream_disconnect (snd (fst (tick_failed cf))) = fl_stream_disconnect (snd cf)"
  "fl_disconnect_code (snd (fst (tick_failed cf))) = fl_disconnect_code (snd cf)"
  "fl_header_len (snd (fst (tick_failed cf))) = fl_header_len (snd cf)"
  "canSTMdu (fst (fst (tick_failed cf))) = (canSTMdu (fst cf) \<or> nothing_received (fst cf))"
  "fl_sendSTMn (snd (fst (tick_failed cf))) = (fl_sendSTMn (snd cf) \<or> nothing_received (fst cf))"
  "render_state (render (fst (fst (tick_failed cf)))) = (if nothing_received (fst cf) then RD_STOPPED else render_state (render (fst cf)))"
  "snd (tick_failed cf) = (if nothing_received (fst cf) then [Log_nothing_received] else [])"
  "render_duration (render (fst (fst (tick_failed cf)))) = render_duration (render (fst cf))"
  "render_ms_played (render (fst (fst (tick_failed cf)))) = render_ms_played (render (fst cf))"
  by (simp_all add: tick_failed_def split_beta)

text \<open>Underrun.\<close>

lemma tick_underrun_keeps [simp]:
  "stream (fst (tick_underrun K cf)) = stream (fst cf)"
  "decode (fst (tick_underrun K cf)) = decode (fst cf)"
  "render (fst (tick_underrun K cf)) = render (fst cf)"
  "slim_run (fst (tick_underrun K cf)) = slim_run (fst cf)"
  "canSTMdu (fst (tick_underrun K cf)) = canSTMdu (fst cf)"
  "sentSTMo (fst (tick_underrun K cf)) = sentSTMo (fst cf)"
  "sentSTMl (fst (tick_underrun K cf)) = sentSTMl (fst cf)"
  "autostart (fst (tick_underrun K cf)) = autostart (fst cf)"
  "callback (fst (tick_underrun K cf)) = callback (fst cf)"
  "fl_sendSTMs (snd (tick_underrun K cf)) = fl_sendSTMs (snd cf)"
  "fl_sendDSCO (snd (tick_underrun K cf)) = fl_sendDSCO (snd cf)"
  "fl_sendRESP (snd (tick_underrun K cf)) = fl_sendRESP (snd cf)"
  "fl_sendMETA (snd (tick_underrun K cf)) = fl_sendMETA (snd cf)"
  "fl_sendSTMd (snd (tick_underrun K cf)) = fl_sendSTMd (snd cf)"
  "fl_sendSTMt (snd (tick_underrun K cf)) = fl_sendSTMt (snd cf)"
  "fl_sendSTMl (snd (tick_underrun K cf)) = fl_sendSTMl (snd cf)"
  "fl_sendSTMo (snd (tick_underrun K cf)) = fl_sendSTMo (snd cf)"
  "fl_sendSTMn (snd (tick_underrun K cf)) = fl_sendSTMn (snd cf)"
  "fl_stream_disconnect (snd (tick_underrun K cf)) = fl_stream_disconnect (snd cf)"
  "fl_disconnect_code (snd (tick_underrun K cf)) = fl_disconnect_code (snd cf)"
  "fl_header_len (snd (tick_underrun K cf)) = fl_header_len (snd cf)"
  "sentSTMu (fst (tick_underrun K cf)) = (sentSTMu (fst cf) \<or> underrun_due K (fst cf))"
  "fl_sendSTMu (snd (tick_underrun K cf)) = (fl_sendSTMu (snd cf) \<or> underrun_due K (fst cf))"
  "encode_flow (output_encode (output' (fst (tick_underrun K cf)))) = (encode_flow (enc_of (fst cf)) \<and> \<not> underrun_due K (fst cf))"
  "output_state (output' (fst (tick_underrun K cf))) = (if underrun_due K (fst cf) then OUTPUT_STOPPED else output_state (out_of (fst cf)))"
  "output_track_started (output' (fst (tick_underrun K cf))) = output_track_started (output' (fst cf))"
  "output_completed (output' (fst (tick_underrun K cf))) = output_completed (output' (fst cf))"
  "output_remote (output' (fst (tick_underrun K cf))) = output_remote (output' (fst cf))"
  "status_stream_bytes (status (fst (tick_underrun K cf))) = status_stream_bytes (status (fst cf))"
  "status_stream_state (status (fst (tick_underrun K cf))) = status_stream_state (status (fst cf))"
  "status_output_ready (status (fst (tick_underrun K cf))) = status_output_ready (status (fst cf))"
  "status_duration (status (fst (tick_underrun K cf))) = status_duration (status (fst cf))"
  "status_ms_played (status (fst (tick_underrun K cf))) = status_ms_played (status (fst cf))"
  "status_last (status (fst (tick_underrun K cf))) = status_last (status (fst cf))"
  by (simp_all add: tick_underrun_def split_beta upd_defs)

text \<open>Overrun.\<close>

lemma tick_overrun_keeps [simp]:
  "stream (fst (tick_overrun cf)) = stream (fst cf)"
  "decode (fst (tick_overrun cf)) = decode (fst cf)"
  "render (fst (tick_overrun cf)) = render (fst cf)"
  "status (fst (tick_overrun cf)) = status (fst cf)"
  "slim_run (fst (tick_overrun cf)) = slim_run (fst cf)"
  "canSTMdu (fst (tick_overrun cf)) = canSTMdu (fst cf)"
  "sentSTMu (fst (tick_overrun cf)) = sentSTMu (fst cf)"
  "sentSTMl (fst (tick_overrun cf)) = sentSTMl (fst cf)"
  "autostart (fst (tick_overrun cf)) = autostart (fst cf)"
  "callback (fst (tick_overrun cf)) = callback (fst cf)"
  "fl_sendSTMs (snd (tick_overrun cf)) = fl_sendSTMs (snd cf)"
  "fl_sendDSCO (snd (tick_overrun cf)) = fl_sendDSCO (snd cf)"
  "fl_sendRESP (snd (tick_overrun cf)) = fl_sendRESP (snd cf)"
  "fl_sendMETA (snd (tick_overrun cf)) = fl_sendMETA (snd cf)"
  "fl_sendSTMd (snd (tick_overrun cf)) = fl_sendSTMd (snd cf)"
  "fl_sendSTMt (snd (tick_overrun cf)) = fl_sendSTMt (snd cf)"
  "fl_sendSTMl (snd (tick_overrun cf)) = fl_sendSTMl (snd cf)"
  "fl_sendSTMu (snd (tick_overrun cf)) = fl_sendSTMu (snd cf)"
  "fl_sendSTMn (snd (tick_overrun cf)) = fl_sendSTMn (snd cf)"
  "fl_stream_disconnect (snd (tick_overrun cf)) = fl_stream_disconnect (snd cf)"
  "fl_disconnect_code (snd (tick_overrun cf)) = fl_disconnect_code (snd cf)"
  "fl_header_len (snd (tick_overrun cf)) = fl_header_len (snd cf)"
  "sentSTMo (fst (tick_overrun cf)) = (sentSTMo (fst cf) \<or> overrun_due (fst cf))"
  "fl_sendSTMo (snd (tick_overrun cf)) = (fl_sendSTMo (snd cf) \<or> overrun_due (fst cf))"
  "output_state (output' (fst (tick_overrun cf))) = (if overrun_due (fst cf) then OUTPUT_STOPPED else output_state (out_of (fst cf)))"
  "output_track_started (output' (fst (tick_overrun cf))) = output_track_started (output' (fst cf))"
  "output_completed (output' (fst (tick_overrun cf))) = output_completed (output' (fst cf))"
  "output_remote (output' (fst (tick_overrun cf))) = output_remote (output' (fst cf))"
  "output_encode (output' (fst (tick_overrun cf))) = output_encode (output' (fst cf))"
  by (simp_all add: tick_overrun_def split_beta upd_defs)

text \<open>The periodic STMt.\<close>

lemma tick_timer_keeps [simp]:
  "stream (fst (tick_timer now cf)) = stream (fst cf)"
  "decode (fst (tick_timer now cf)) = decode (fst cf)"
  "output' (fst (tick_timer now cf)) = output' (fst cf)"
  "render (fst (tick_timer now cf)) = render (fst cf)"
  "slim_run (fst (tick_timer now cf)) = slim_run (fst cf)"
  "canSTMdu (fst (tick_timer now cf)) = canSTMdu (fst cf)"
  "sentSTMu (fst (tick_timer now cf)) = sentSTMu (fst cf)"
  "sentSTMo (fst (tick_timer now cf)) = sentSTMo (fst cf)"
  "sentSTMl (fst (tick_timer now cf)) = sentSTMl (fst cf)"
  "autostart (fst (tick_timer now cf)) = autostart (fst cf)"
  "callback (fst (tick_timer now cf)) = callback (fst cf)"
  "fl_sendSTMs (snd (tick_timer now cf)) = fl_sendSTMs (snd cf)"
  "fl_sendDSCO (snd (tick_timer now cf)) = fl_sendDSCO (snd cf)"
  "fl_sendRESP (snd (tick_timer now cf)) = fl_sendRESP (snd cf)"
  "fl_sendMETA (snd (tick_timer now cf)) = fl_sendMETA (snd cf)"
  "fl_sendSTMd (snd (tick_timer now cf)) = fl_sendSTMd (snd cf)"
  "fl_sendSTMl (snd (tick_timer now cf)) = fl_sendSTMl (snd cf)"
  "fl_sendSTMu (snd (tick_timer now cf)) = fl_sendSTMu (snd cf)"
  "fl_sendSTMo (snd (tick_timer now cf)) = fl_sendSTMo (snd cf)"
  "fl_sendSTMn (snd (tick_timer now cf)) = fl_sendSTMn (snd cf)"
  "fl_stream_disconnect (snd (tick_timer now cf)) = fl_stream_disconnect (snd cf)"
  "fl_disconnect_code (snd (tick_timer now cf)) = fl_disconnect_code (snd cf)"
  "fl_header_len (snd (tick_timer now cf)) = fl_header_len (snd cf)"
  "fl_sendSTMt (snd (tick_timer now cf)) = (fl_sendSTMt (snd cf) \<or> timer_due now (fst cf))"
  "status_stream_bytes (status (fst (tick_timer now cf))) = status_stream_bytes (status (fst cf))"
  "status_stream_state (status (fst (tick_timer now cf))) = status_stream_state (status (fst cf))"
  "status_output_ready (status (fst (tick_timer now cf))) = status_output_ready (status (fst cf))"
  "status_duration (status (fst (tick_timer now cf))) = status_duration (status (fst cf))"
  "status_ms_played (status (fst (tick_timer now cf))) = status_ms_played (status (fst cf))"
  by (simp_all add: tick_timer_def split_beta upd_defs)

text \<open>The decoder is ready and the stream delivers.\<close>

lemma tick_loaded_keeps [simp]:
  "stream (fst (fst (tick_loaded cf))) = stream (fst cf)"
  "render (fst (fst (tick_loaded cf))) = render (fst cf)"
  "status (fst (fst (tick_loaded cf))) = status (fst cf)"
  "slim_run (fst (fst (tick_loaded cf))) = slim_run (fst cf)"
  "canSTMdu (fst (fst (tick_loaded cf))) = canSTMdu (fst cf)"
  "sentSTMu (fst (fst (tick_loaded cf))) = sentSTMu (fst cf)"
  "sentSTMo (fst (fst (tick_loaded cf))) = sentSTMo (fst cf)"
  "autostart (fst (fst (tick_loaded cf))) = autostart (fst cf)"
  "callback (fst (fst (tick_loaded cf))) = callback (fst cf)"
  "fl_sendSTMs (snd (fst (tick_loaded cf))) = fl_sendSTMs (snd cf)"
  "fl_sendDSCO (snd (fst (tick_loaded cf))) = fl_sendDSCO (snd cf)"
  "fl_sendRESP (snd (fst (tick_loaded cf))) = fl_sendRESP (snd cf)"
  "fl_sendMETA (snd (fst (tick_loaded cf))) = fl_sendMETA (snd cf)"
  "fl_sendSTMd (snd (fst (tick_loaded cf))) = fl_sendSTMd (snd cf)"
  "fl_sendSTMt (snd (fst (tick_loaded cf))) = fl_sendSTMt (snd cf)"
  "fl_sendSTMu (snd (fst (tick_loaded cf))) = fl_sendSTMu (snd cf)"
  "fl_sendSTMo (snd (fst (tick_loaded cf))) = fl_sendSTMo (snd cf)"
  "fl_sendSTMn (snd (fst (tick_loaded cf))) = fl_sendSTMn (snd cf)"
  "fl_stream_disconnect (snd (fst (tick_loaded cf))) = fl_stream_disconnect (snd cf)"
  "fl_disconnect_code (snd (fst (tick_loaded cf))) = fl_disconnect_code (snd cf)"
  "fl_header_len (snd (fst (tick_loaded cf))) = fl_header_len (snd cf)"
  "decode_state (decode (fst (fst (tick_loaded cf)))) = (if loaded_due (fst cf) \<and> (autostart (fst cf) = 0 \<or> autostart (fst cf) = 1) then DECODE_RUNNING else decode_state (decode (fst cf)))"
  "sentSTMl (fst (fst (tick_loaded cf))) = (sentSTMl (fst cf) \<or> loaded_due (fst cf) \<and> autostart (fst cf) = 0)"
  "fl_sendSTMl (snd (fst (tick_loaded cf))) = (fl_sendSTMl (snd cf) \<or> loaded_due (fst cf) \<and> autostart (fst cf) = 0)"
  "output_state (output' (fst (fst (tick_loaded cf)))) = (if loaded_due (fst cf) \<and> autostart (fst cf) = 1 then OUTPUT_RUNNING else output_state (out_of (fst cf)))"
  "output_track_started (output' (fst (fst (tick_loaded cf)))) = output_track_started (output' (fst cf))"
  "output_completed (output' (fst (fst (tick_loaded cf)))) = output_completed (output' (fst cf))"
  "output_remote (output' (fst (fst (tick_loaded cf)))) = output_remote (output' (fst cf))"
  "output_encode (output' (fst (fst (tick_loaded cf)))) = output_encode (output' (fst cf))"
  by (simp_all add: tick_loaded_def split_beta upd_defs Let_def)

text \<open>The decoder has finished, or failed.\<close>

lemma tick_decoded_keeps [simp]:
  "stream (fst (tick_decoded K cf)) = stream (fst cf)"
  "output' (fst (tick_decoded K cf)) = output' (fst cf)"
  "render (fst (tick_decoded K cf)) = render (fst cf)"
  "status (fst (tick_decoded K cf)) = status (fst cf)"
  "slim_run (fst (tick_decoded K cf)) = slim_run (fst cf)"
  "canSTMdu (fst (tick_decoded K cf)) = canSTMdu (fst cf)"
  "sentSTMu (fst (tick_decoded K cf)) = sentSTMu (fst cf)"
  "sentSTMo (fst (tick_decoded K cf)) = sentSTMo (fst cf)"
  "sentSTMl (fst (tick_decoded K cf)) = sentSTMl (fst cf)"
  "autostart (fst (tick_decoded K cf)) = autostart (fst cf)"
  "callback (fst (tick_decoded K cf)) = callback (fst cf)"
  "fl_sendSTMs (snd (tick_decoded K cf)) = fl_sendSTMs (snd cf)"
  "fl_sendDSCO (snd (tick_decoded K cf)) = fl_sendDSCO (snd cf)"
  "fl_sendRESP (snd (tick_decoded K cf)) = fl_sendRESP (snd cf)"
  "fl_sendMETA (snd (tick_decoded K cf)) = fl_sendMETA (snd cf)"
  "fl_sendSTMt (snd (tick_decoded K cf)) = fl_sendSTMt (snd cf)"
  "fl_sendSTMl (snd (tick_decoded K cf)) = fl_sendSTMl (snd cf)"
  "fl_sendSTMu (snd (tick_decoded K cf)) = fl_sendSTMu (snd cf)"
  "fl_sendSTMo (snd (tick_decoded K cf)) = fl_sendSTMo (snd cf)"
  "fl_disconnect_code (snd (tick_decoded K cf)) = fl_disconnect_code (snd cf)"
  "fl_header_len (snd (tick_decoded K cf)) = fl_header_len (snd cf)"
  "fl_sendSTMd (snd (tick_decoded K cf)) = (fl_sendSTMd (snd cf) \<or> decoded_due K (fst cf))"
  "fl_sendSTMn (snd (tick_decoded K cf)) = (fl_sendSTMn (snd cf) \<or> decode_state (decode (fst cf)) = DECODE_ERROR)"
  "decode_state (decode (fst (tick_decoded K cf))) = (if decoded_due K (fst cf) \<or> decode_state (decode (fst cf)) = DECODE_ERROR then DECODE_STOPPED else decode_state (decode (fst cf)))"
  by (auto simp add: tick_decoded_def decoded_due_def split_beta)

lemma tick_loaded_effects [simp]:
  "wire (snd (tick_loaded cf)) = []" "held_after h (snd (tick_loaded cf)) = h"
  "sends_unlocked h (snd (tick_loaded cf))" "list_all silent (snd (tick_loaded cf))"
  by (simp_all add: tick_loaded_def split_beta Let_def ctx_callback_def wire_def map_filter_simps
       silent_def option.case_eq_if)

lemma tick_stream_keeps [simp]:
  "decode (fst (tick_stream K cf)) = decode (fst cf)"
  "output' (fst (tick_stream K cf)) = output' (fst cf)"
  "render (fst (tick_stream K cf)) = render (fst cf)"
  "canSTMdu (fst (tick_stream K cf)) = canSTMdu (fst cf)"
  "sentSTMu (fst (tick_stream K cf)) = sentSTMu (fst cf)"
  "sentSTMo (fst (tick_stream K cf)) = sentSTMo (fst cf)"
  "sentSTMl (fst (tick_stream K cf)) = sentSTMl (fst cf)"
  "autostart (fst (tick_stream K cf)) = autostart (fst cf)"
  "callback (fst (tick_stream K cf)) = callback (fst cf)"
  "status_stream_bytes (status (fst (tick_stream K cf))) = stream_bytes (stream (fst cf))"
  "status_stream_state (status (fst (tick_stream K cf))) = stream_state (stream (fst cf))"
  "status_last (status (fst (tick_stream K cf))) = status_last (status (fst cf))"
  "stream_disconnect_code (stream (fst (tick_stream K cf))) = stream_disconnect_code (stream (fst cf))"
  "fl_sendSTMs (snd (tick_stream K cf)) = fl_sendSTMs (snd cf)"
  "fl_sendSTMt (snd (tick_stream K cf)) = fl_sendSTMt (snd cf)"
  "fl_sendSTMl (snd (tick_stream K cf)) = fl_sendSTMl (snd cf)"
  "fl_sendSTMd (snd (tick_stream K cf)) = fl_sendSTMd (snd cf)"
  "fl_sendSTMu (snd (tick_stream K cf)) = fl_sendSTMu (snd cf)"
  "fl_sendSTMo (snd (tick_stream K cf)) = fl_sendSTMo (snd cf)"
  "fl_sendSTMn (snd (tick_stream K cf)) = fl_sendSTMn (snd cf)"
  "fl_stream_disconnect (snd (tick_stream K cf)) = fl_stream_disconnect (snd cf)"
  by (simp_all add: tick_stream_def)

lemma tick_output_keeps [simp]:
  "decode (fst (fst (tick_output K cf))) = decode (fst cf)"
  "stream (fst (fst (tick_output K cf))) = stream (fst cf)"
  "autostart (fst (fst (tick_output K cf))) = autostart (fst cf)"
  "sentSTMl (fst (fst (tick_output K cf))) = sentSTMl (fst cf)"
  "callback (fst (fst (tick_output K cf))) = callback (fst cf)"
  "canSTMdu (fst (fst (tick_output K cf))) =
     (canSTMdu (fst cf) \<or> output_track_started (out_of (fst cf)) \<or>
      snd (tick_output K cf) \<noteq> [])"
  "output_track_started (out_of (fst (fst (tick_output K cf)))) = False"
  "output_remote (out_of (fst (fst (tick_output K cf)))) = output_remote (out_of (fst cf))"
  "status_output_ready (status (fst (fst (tick_output K cf)))) =
     (output_completed (out_of (fst cf)) \<or> encode_flow (enc_of (fst cf)))"
  "status_duration (status (fst (fst (tick_output K cf)))) = render_duration (render (fst cf))"
  "status_ms_played (status (fst (fst (tick_output K cf)))) = render_ms_played (render (fst cf))"
  "status_stream_state (status (fst (fst (tick_output K cf)))) = status_stream_state (status (fst cf))"
  "status_last (status (fst (fst (tick_output K cf)))) = status_last (status (fst cf))"
  "fl_sendSTMs (snd (fst (tick_output K cf))) = (fl_sendSTMs (snd cf) \<or> output_track_started (out_of (fst cf)))"
  "fl_sendSTMd (snd (fst (tick_output K cf))) = fl_sendSTMd (snd cf)"
  "fl_sendSTMt (snd (fst (tick_output K cf))) = fl_sendSTMt (snd cf)"
  "fl_sendSTMl (snd (fst (tick_output K cf))) = fl_sendSTMl (snd cf)"
  "fl_stream_disconnect (snd (fst (tick_output K cf))) = fl_stream_disconnect (snd cf)"
  by (simp_all add: tick_output_def split_beta)


lemma tick_output_armed:
  "fl_sendSTMu (snd (fst (tick_output K cf))) \<Longrightarrow> \<not> fl_sendSTMu (snd cf) \<Longrightarrow>
     canSTMdu (fst (fst (tick_output K cf)))"
  "fl_sendSTMo (snd (fst (tick_output K cf))) \<Longrightarrow> \<not> fl_sendSTMo (snd cf) \<Longrightarrow>
     canSTMdu (fst (fst (tick_output K cf)))"
  by (auto simp add: tick_output_def split_beta underrun_due_def overrun_due_def)

lemma tick_output_effects:
  "snd (tick_output K cf) = [] \<or> snd (tick_output K cf) = [Log_nothing_received]"
  by (simp add: tick_output_def split_beta)

lemma tick_decode_keeps [simp]:
  "canSTMdu (fst (fst (tick_decode K now cf))) = canSTMdu (fst cf)"
  "output_track_started (out_of (fst (fst (tick_decode K now cf)))) = output_track_started (out_of (fst cf))"
  "callback (fst (fst (tick_decode K now cf))) = callback (fst cf)"
  "fl_sendSTMs (snd (fst (tick_decode K now cf))) = fl_sendSTMs (snd cf)"
  "fl_sendSTMu (snd (fst (tick_decode K now cf))) = fl_sendSTMu (snd cf)"
  "fl_sendSTMo (snd (fst (tick_decode K now cf))) = fl_sendSTMo (snd cf)"
  "wire (snd (tick_decode K now cf)) = []" "held_after h (snd (tick_decode K now cf)) = h"
  "sends_unlocked h (snd (tick_decode K now cf))" "list_all silent (snd (tick_decode K now cf))"
  by (simp_all add: tick_decode_def split_beta)


subsection \<open>What one run of the ticker sends\<close>

lemma tick_output_silent [simp]:
  "wire (snd (tick_output K cf)) = []" "held_after h (snd (tick_output K cf)) = h"
  "sends_unlocked h (snd (tick_output K cf))"
  by (simp_all add: tick_output_def split_beta wire_def map_filter_simps)

lemma stream_disconnect_effects [simp]:
  "snd (snd (stream_disconnect K c)) = [Stream_disconnect]"
  by (simp add: stream_disconnect_def split_beta)

lemma stream_disconnect_private [simp]:
  "canSTMdu (fst (snd (stream_disconnect K c))) = canSTMdu c"
  "callback (fst (snd (stream_disconnect K c))) = callback c"
  "status (fst (snd (stream_disconnect K c))) = status c"
  "get_shared (fst (snd (stream_disconnect K c))) = snd (x_stream_disconnect K (get_shared c))"
  by (simp_all add: stream_disconnect_def split_beta)

lemma sends_unlocked_append:
  "sends_unlocked h (xs @ ys) = (sends_unlocked h xs \<and> sends_unlocked (held_after h xs) ys)"
  by (induction h xs rule: sends_unlocked.induct) simp_all

lemma held_after_append: "held_after h (xs @ ys) = held_after (held_after h xs) ys"
  by (induction h xs rule: held_after.induct) simp_all

lemma wire_opt: "wire (if b then [e] else []) = (if b then wire [e] else [])"
  by (simp add: wire_def map_filter_simps)

lemma subseq_opt: "subseq xs ys \<Longrightarrow> subseq ((if b then [x] else []) @ xs) (x # ys)"
  by (auto intro: list_emb_Cons)

lemma wire_tick_sends:
  "wire (tick_sends c fl) =
     (if fl_sendDSCO fl then [''DSCO''] else []) @ (if fl_sendSTMs fl then [''STMs''] else []) @
     (if fl_sendSTMt fl then [''STMt''] else []) @ (if fl_sendSTMl fl then [''STMl''] else []) @
     (if fl_sendSTMd fl then [''STMd''] else []) @ (if fl_sendSTMu fl then [''STMu''] else []) @
     (if fl_sendSTMo fl then [''STMo''] else []) @ (if fl_sendSTMn fl then [''STMn''] else []) @
     (if fl_sendRESP fl then [''RESP''] else []) @ (if fl_sendMETA fl then [''META''] else [])"
  unfolding tick_sends_def wire_append wire_opt by (simp add: wire_Cons)

lemma tick_sends_order: "subseq (wire (tick_sends c fl)) send_order"
  unfolding wire_tick_sends send_order_def
  by (intro subseq_opt) simp

lemma sends_unlocked_opt:
  "sends_unlocked [] ((if b then [e] else []) @ es) = sends_unlocked [] es"
  "held_after [] ((if b then [e] else []) @ es) = held_after [] es"
  if "\<And>m. e \<noteq> LOCK m" for e
  using that by (cases e; simp)+

lemma tick_sends_unlocked [simp]:
  "sends_unlocked [] (tick_sends c fl)" "held_after [] (tick_sends c fl) = []"
  unfolding tick_sends_def by (simp_all add: sends_unlocked_opt)

lemma status_ticker_wire:
  "wire (snd (status_ticker K now c)) =
     wire (tick_sends (fst (status_ticker K now c))
       (snd (fst (tick_decode K now (fst (tick_output K
          (tick_stream K (c\<lparr>slim_run := (slim_run c)\<lparr>slim_run_last := now\<rparr>\<rparr>, no_flags)))))))) "
  by (simp add: status_ticker_def split_beta Let_def wire_Cons)

lemmas tick_defs = status_ticker_def tick_stream_def tick_sample_stream_def tick_dsco_def
  tick_resp_def tick_meta_def tick_output_def tick_sample_output_def tick_started_def
  tick_failed_def nothing_received_def tick_underrun_def underrun_due_def tick_overrun_def
  overrun_due_def tick_decode_def tick_timer_def timer_due_def tick_loaded_def loaded_due_def
  tick_decoded_def decoded_due_def stmd_gate_def tick_sends_def no_flags_def
  stream_disconnect_def upd_status_def upd_stream_def copy_header_def Let_def

lemma wire_empty_iff: "wire es = [] \<longleftrightarrow> list_all (\<lambda>e. wire_tag e = None) es"
  by (induction es) (simp_all add: wire_Cons split: option.splits)

lemma takeWhile_prefix:
  "list_all P pre \<Longrightarrow> list_all (\<lambda>e. \<not> P e) sends \<Longrightarrow>
     takeWhile P (pre @ sends) = pre \<and> dropWhile P (pre @ sends) = sends"
proof (induction pre)
  case Nil
  then show ?case by (cases sends) simp_all
next
  case (Cons e pre)
  then show ?case by simp
qed

lemma tick_sends_all_sent: "list_all (\<lambda>e. wire_tag e \<noteq> None) (tick_sends c fl)"
  by (simp add: tick_sends_def)

lemma status_ticker_split:
  "\<exists>pre. snd (status_ticker K now c) =
           pre @ tick_sends (fst (status_ticker K now c)) (ticker_flags K now c) \<and>
         wire pre = [] \<and> held_after [] pre = []"
proof -
  let ?s1 = "tick_stream K (c\<lparr>slim_run := (slim_run c)\<lparr>slim_run_last := now\<rparr>\<rparr>, no_flags)"
  let ?s2 = "tick_output K ?s1"
  let ?s3 = "tick_decode K now (fst ?s2)"
  let ?pre = "[LOCK MUTEX_S, UNLOCK MUTEX_S, LOCK MUTEX_O] @ snd ?s2 @
     [UNLOCK MUTEX_O, LOCK MUTEX_D] @ snd ?s3 @ [UNLOCK MUTEX_D] @
     (if fl_stream_disconnect (snd (fst ?s3)) then [Stream_disconnect] else [])"
  have "snd (status_ticker K now c) =
      ?pre @ tick_sends (fst (status_ticker K now c)) (ticker_flags K now c)"
    by (simp add: status_ticker_def split_beta Let_def ticker_flags_def)
  moreover have "wire ?pre = []"
    by (simp add: wire_Cons)
  moreover have "held_after [] ?pre = []"
    by (simp add: held_after_append)
  ultimately show ?thesis
    by blast
qed

text \<open>
  \<^bold>\<open>C6\<close>.  In one run of the status ticker the packets on the wire are exactly those whose
  flag the run has raised, in the order DSCO, STMs, STMt, STMl, STMd, STMu, STMo, STMn, RESP,
  META, each once (so they are a subsequence of that list).  They are sent after every lock
  has been released: no mutex is held at a send, none is held after the effects that come
  before the first packet, and from the first packet on there are only packets.
\<close>

theorem ticker_send_order:
  "wire (snd (status_ticker K now c)) =
     (if fl_sendDSCO (ticker_flags K now c) then [''DSCO''] else []) @
     (if fl_sendSTMs (ticker_flags K now c) then [''STMs''] else []) @
     (if fl_sendSTMt (ticker_flags K now c) then [''STMt''] else []) @
     (if fl_sendSTMl (ticker_flags K now c) then [''STMl''] else []) @
     (if fl_sendSTMd (ticker_flags K now c) then [''STMd''] else []) @
     (if fl_sendSTMu (ticker_flags K now c) then [''STMu''] else []) @
     (if fl_sendSTMo (ticker_flags K now c) then [''STMo''] else []) @
     (if fl_sendSTMn (ticker_flags K now c) then [''STMn''] else []) @
     (if fl_sendRESP (ticker_flags K now c) then [''RESP''] else []) @
     (if fl_sendMETA (ticker_flags K now c) then [''META''] else []) \<and>
   subseq (wire (snd (status_ticker K now c))) send_order \<and>
   sends_unlocked [] (snd (status_ticker K now c)) \<and>
   held_after [] (takeWhile (\<lambda>e. wire_tag e = None) (snd (status_ticker K now c))) = [] \<and>
   list_all (\<lambda>e. wire_tag e \<noteq> None)
     (dropWhile (\<lambda>e. wire_tag e = None) (snd (status_ticker K now c))) \<and>
   held_after [] (snd (status_ticker K now c)) = []"
proof (intro conjI)
  show "wire (snd (status_ticker K now c)) =
     (if fl_sendDSCO (ticker_flags K now c) then [''DSCO''] else []) @
     (if fl_sendSTMs (ticker_flags K now c) then [''STMs''] else []) @
     (if fl_sendSTMt (ticker_flags K now c) then [''STMt''] else []) @
     (if fl_sendSTMl (ticker_flags K now c) then [''STMl''] else []) @
     (if fl_sendSTMd (ticker_flags K now c) then [''STMd''] else []) @
     (if fl_sendSTMu (ticker_flags K now c) then [''STMu''] else []) @
     (if fl_sendSTMo (ticker_flags K now c) then [''STMo''] else []) @
     (if fl_sendSTMn (ticker_flags K now c) then [''STMn''] else []) @
     (if fl_sendRESP (ticker_flags K now c) then [''RESP''] else []) @
     (if fl_sendMETA (ticker_flags K now c) then [''META''] else [])"
    unfolding status_ticker_wire wire_tick_sends ticker_flags_def by (rule refl)
  show "subseq (wire (snd (status_ticker K now c))) send_order"
    unfolding status_ticker_wire by (rule tick_sends_order)
  show "sends_unlocked [] (snd (status_ticker K now c))"
    by (simp add: status_ticker_def split_beta Let_def sends_unlocked_append held_after_append)
  show "held_after [] (snd (status_ticker K now c)) = []"
    by (simp add: status_ticker_def split_beta Let_def held_after_append)
  obtain pre where pre: "snd (status_ticker K now c) =
      pre @ tick_sends (fst (status_ticker K now c)) (ticker_flags K now c)"
    "wire pre = []" "held_after [] pre = []"
    using status_ticker_split [of K now c] by blast
  have silent: "list_all (\<lambda>e. wire_tag e = None) pre"
    using pre(2) by (simp add: wire_empty_iff)
  note split = takeWhile_prefix [OF silent,
      of "tick_sends (fst (status_ticker K now c)) (ticker_flags K now c)"]
  show "held_after [] (takeWhile (\<lambda>e. wire_tag e = None) (snd (status_ticker K now c))) = []"
    unfolding pre(1) using split tick_sends_all_sent pre(3) by simp
  show "list_all (\<lambda>e. wire_tag e \<noteq> None)
     (dropWhile (\<lambda>e. wire_tag e = None) (snd (status_ticker K now c)))"
    unfolding pre(1) using split tick_sends_all_sent by simp
qed

lemma demo_flags_busy:
  "ticker_flags demo_platform 5000 demo_busy =
     no_flags\<lparr>fl_sendSTMs := True, fl_sendDSCO := True, fl_sendMETA := True, fl_sendSTMt := True\<rparr>"
  by (simp add: ticker_flags_def tick_defs demo_busy_def demo_defs upd_output_def upd_encode_def
      ctx_callback_def)

theorem ticker_send_order_witness:
  "wire (snd (status_ticker demo_platform 5000 demo_busy)) = [''DSCO'', ''STMs'', ''STMt'', ''META'']"
  using ticker_send_order [where K = demo_platform and now = 5000 and c = demo_busy]
  by (simp add: demo_flags_busy no_flags_def)

subsection \<open>The gate of STMd\<close>

lemma mem_opt [simp]: "x \<in> set (if b then [y] else []) \<longleftrightarrow> b \<and> x = y"
  by auto


lemma status_ticker_status:
  "status_output_ready (status (fst (status_ticker K now c))) =
     (output_completed (out_of c) \<or> encode_flow (enc_of c))"
  by (simp add: status_ticker_def split_beta Let_def tick_decode_def)




lemma demo_tick_remote:
  "snd (status_ticker demo_platform 5000 demo_remote) =
     [LOCK MUTEX_S, UNLOCK MUTEX_S, LOCK MUTEX_O, UNLOCK MUTEX_O, LOCK MUTEX_D, UNLOCK MUTEX_D]"
  by (simp add: tick_defs demo_remote_def demo_complete_def demo_defs upd_output_def upd_encode_def
      word_less_nat_alt)


end
